theory Spec2Isabelle
  imports Main "HOL-Library.Word"
begin

section \<open>Connection bootstrap and enrollment wizard of config.go\<close>

text \<open>
  The file \<^verbatim>\<open>config.go\<close> holds two pieces of logic: \<^verbatim>\<open>enroll\<close>, the interactive
  wizard that fills a configuration record from the answers read on a terminal, and
  \<^verbatim>\<open>NewXMPPConn\<close>, which turns such a record and a password into a session.
  Both are embedded here as state-passing functions. Everything they call outside the
  file (the terminal, the file system, the key package, \<^verbatim>\<open>url.Parse\<close>,
  \<^verbatim>\<open>proxy.FromURL\<close>, \<^verbatim>\<open>xmpp.Resolve\<close>, \<^verbatim>\<open>xmpp.Dial\<close>,
  \<^verbatim>\<open>x509.ParseCertificate\<close>) is a field of a record of collaborators, and every call
  with an effect is written to a log of actions in the order the code makes it.
\<close>

subsection \<open>Library functions of Go used by the file\<close>

text \<open>
  \<^verbatim>\<open>strings.SplitN(s, "@", 2)\<close>: at most two parts, cut at the first separator;
  a string without the separator comes back as the single part \<^verbatim>\<open>[s]\<close>.
\<close>

definition SplitN2 :: "string \<Rightarrow> char \<Rightarrow> string list" where
  "SplitN2 s sep =
     (if sep \<in> set s
      then [takeWhile (\<lambda>c. c \<noteq> sep) s, tl (dropWhile (\<lambda>c. c \<noteq> sep) s)]
      else [s])"

text \<open>\<^verbatim>\<open>%d\<close> of \<^verbatim>\<open>fmt.Sprintf\<close> and \<^verbatim>\<open>strconv.Itoa\<close>: the decimal digits of an integer.\<close>

fun digitsOf :: "nat \<Rightarrow> string" where
  "digitsOf n =
     (if n < 10 then [''0123456789'' ! n]
      else digitsOf (n div 10) @ [''0123456789'' ! (n mod 10)])"

declare digitsOf.simps [simp del]

definition Itoa :: "int \<Rightarrow> string" where
  "Itoa i = (if i < 0 then CHR ''-'' # digitsOf (nat (- i)) else digitsOf (nat i))"

text \<open>\<^verbatim>\<open>fmt.Sprintf("%s:%d", host, port)\<close>.\<close>

definition hostPort :: "string \<Rightarrow> int \<Rightarrow> string" where
  "hostPort host port = host @ '':'' @ Itoa port"

text \<open>
  \<^verbatim>\<open>hex.DecodeString\<close> of \<^verbatim>\<open>encoding/hex\<close>: two characters make one byte, either case
  of the letters is read, a character that is no hexadecimal digit is an error, and so
  is an odd number of characters. Which of the two errors is reported when both apply
  has changed between releases of the library; \<^verbatim>\<open>NewXMPPConn\<close> only tells an error
  from a result.
\<close>

type_synonym byte = "8 word"

datatype hexError = InvalidByteError char | ErrLength

definition fromHexChar :: "char \<Rightarrow> nat option" where
  "fromHexChar c =
     (let n = (of_char c :: nat) in
      if 48 \<le> n \<and> n \<le> 57 then Some (n - 48)
      else if 97 \<le> n \<and> n \<le> 102 then Some (n - 87)
      else if 65 \<le> n \<and> n \<le> 70 then Some (n - 55)
      else None)"

fun DecodeString :: "string \<Rightarrow> hexError + byte list" where
  "DecodeString [] = Inr []"
| "DecodeString [p] =
     (case fromHexChar p of None \<Rightarrow> Inl (InvalidByteError p) | Some a \<Rightarrow> Inl ErrLength)"
| "DecodeString (p # q # rest) =
     (case fromHexChar p of
        None \<Rightarrow> Inl (InvalidByteError p)
      | Some a \<Rightarrow>
          (case fromHexChar q of
             None \<Rightarrow> Inl (InvalidByteError q)
           | Some b \<Rightarrow>
               (case DecodeString rest of
                  Inl e \<Rightarrow> Inl e
                | Inr bs \<Rightarrow> Inr (word_of_nat (16 * a + b) # bs))))"

subsection \<open>The configuration record\<close>

text \<open>
  The fields of \<^verbatim>\<open>coyconf.Config\<close> that the file reads or writes. A Go \<^verbatim>\<open>int\<close>
  is an \<open>int\<close> here: the only arithmetic on the port is a comparison.
\<close>

record Config =
  Account :: string
  RawLogFile :: string
  UseTor :: bool
  PrivateKey :: "byte list"
  OTRAutoAppendTag :: bool
  OTRAutoStartSession :: bool
  OTRAutoTearDown :: bool
  Server :: string
  Port :: int
  Proxies :: "string list"
  ServerCertificateSHA256 :: string

subsection \<open>NewXMPPConn\<close>

text \<open>
  The policy handed to the protocol layer, \<^verbatim>\<open>xmpp.Config\<close> with its \<^verbatim>\<open>tls.Config\<close>.
  A nil slice, a nil pool and a nil connection are \<open>None\<close>.
\<close>

datatype tlsVersion = VersionTLS10

datatype cipherSuite =
    TLS_ECDHE_ECDSA_WITH_AES_128_GCM_SHA256
  | TLS_ECDHE_RSA_WITH_AES_128_GCM_SHA256
  | TLS_ECDHE_ECDSA_WITH_AES_128_CBC_SHA
  | TLS_ECDHE_ECDSA_WITH_AES_256_CBC_SHA
  | TLS_ECDHE_RSA_WITH_AES_128_CBC_SHA
  | TLS_ECDHE_RSA_WITH_AES_256_CBC_SHA

record 'cert tlsConfig =
  MinVersion :: tlsVersion
  CipherSuites :: "cipherSuite list"
  RootCAs :: "'cert list option"

record ('l, 'cb, 'cert, 'c) xmppConfig =
  Log :: 'l
  CreateCallback :: 'cb
  TrustedAddress :: bool
  Archive :: bool
  CertSHA256 :: "byte list option"
  TLSConfig :: "'cert tlsConfig"
  Conn :: "'c option"

text \<open>One constructor for each \<^verbatim>\<open>errors.New\<close> of the function, with the texts it appends.\<close>

datatype connError =
    InvalidUsername string
  | ProxyWithoutServer
  | ResolveFailed string
  | ProxyURLInvalid string string
  | ProxyInvalid string string
  | PinNotHex hexError
  | PinNot32Bytes
  | ProxyConnectFailed string
  | XMPPConnectFailed string

text \<open>
  What the function does to the world, in order. \<open>Close\<close> is the \<^verbatim>\<open>Close\<close> method of
  the connection a dialer returns.
\<close>

datatype ('d, 'c, 'cert, 'l, 'cb) action =
    Lookup string
  | DialerDial 'd string string
  | XMPPDial string string string string "('l, 'cb, 'cert, 'c) xmppConfig"
  | Close 'c

text \<open>
  The collaborators both functions call: \<^verbatim>\<open>xmpp.Resolve\<close>, \<^verbatim>\<open>url.Parse\<close>,
  \<^verbatim>\<open>proxy.FromURL\<close> and \<^verbatim>\<open>proxy.Direct\<close>. An error is the text of its
  \<^verbatim>\<open>Error()\<close>.
\<close>

record ('u, 'd) netDeps =
  Resolve :: "string \<Rightarrow> string + (string \<times> 16 word)"
  urlParse :: "string \<Rightarrow> string + 'u"
  FromURL :: "'u \<Rightarrow> 'd \<Rightarrow> string + 'd"
  Direct :: 'd

text \<open>
  Those of \<^verbatim>\<open>NewXMPPConn\<close> alone: the \<^verbatim>\<open>Dial\<close> method of a dialer,
  \<^verbatim>\<open>x509.ParseCertificate\<close> and \<^verbatim>\<open>xmpp.Dial\<close>.
\<close>

record ('u, 'd, 'c, 'cert, 's, 'l, 'cb) connDeps = "('u, 'd) netDeps" +
  Dial :: "'d \<Rightarrow> string \<Rightarrow> string \<Rightarrow> string + 'c"
  ParseCertificate :: "byte list \<Rightarrow> string + 'cert"
  xmppDial :: "string \<Rightarrow> string \<Rightarrow> string \<Rightarrow> string \<Rightarrow>
               ('l, 'cb, 'cert, 'c) xmppConfig \<Rightarrow> string + 's"

text \<open>Lines 356 to 514, the root certificate of CACert in DER.\<close>

definition caCertRootDER :: "byte list" where
  "caCertRootDER =
     [
      0x30, 0x82, 0x07, 0x3D, 0x30, 0x82, 0x05, 0x25, 0xA0, 0x03, 0x02, 0x01,
      0x02, 0x02, 0x01, 0x00, 0x30, 0x0D, 0x06, 0x09, 0x2A, 0x86, 0x48, 0x86,
      0xF7, 0x0D, 0x01, 0x01, 0x04, 0x05, 0x00, 0x30, 0x79, 0x31, 0x10, 0x30,
      0x0E, 0x06, 0x03, 0x55, 0x04, 0x0A, 0x13, 0x07, 0x52, 0x6F, 0x6F, 0x74,
      0x20, 0x43, 0x41, 0x31, 0x1E, 0x30, 0x1C, 0x06, 0x03, 0x55, 0x04, 0x0B,
      0x13, 0x15, 0x68, 0x74, 0x74, 0x70, 0x3A, 0x2F, 0x2F, 0x77, 0x77, 0x77,
      0x2E, 0x63, 0x61, 0x63, 0x65, 0x72, 0x74, 0x2E, 0x6F, 0x72, 0x67, 0x31,
      0x22, 0x30, 0x20, 0x06, 0x03, 0x55, 0x04, 0x03, 0x13, 0x19, 0x43, 0x41,
      0x20, 0x43, 0x65, 0x72, 0x74, 0x20, 0x53, 0x69, 0x67, 0x6E, 0x69, 0x6E,
      0x67, 0x20, 0x41, 0x75, 0x74, 0x68, 0x6F, 0x72, 0x69, 0x74, 0x79, 0x31,
      0x21, 0x30, 0x1F, 0x06, 0x09, 0x2A, 0x86, 0x48, 0x86, 0xF7, 0x0D, 0x01,
      0x09, 0x01, 0x16, 0x12, 0x73, 0x75, 0x70, 0x70, 0x6F, 0x72, 0x74, 0x40,
      0x63, 0x61, 0x63, 0x65, 0x72, 0x74, 0x2E, 0x6F, 0x72, 0x67, 0x30, 0x1E,
      0x17, 0x0D, 0x30, 0x33, 0x30, 0x33, 0x33, 0x30, 0x31, 0x32, 0x32, 0x39,
      0x34, 0x39, 0x5A, 0x17, 0x0D, 0x33, 0x33, 0x30, 0x33, 0x32, 0x39, 0x31,
      0x32, 0x32, 0x39, 0x34, 0x39, 0x5A, 0x30, 0x79, 0x31, 0x10, 0x30, 0x0E,
      0x06, 0x03, 0x55, 0x04, 0x0A, 0x13, 0x07, 0x52, 0x6F, 0x6F, 0x74, 0x20,
      0x43, 0x41, 0x31, 0x1E, 0x30, 0x1C, 0x06, 0x03, 0x55, 0x04, 0x0B, 0x13,
      0x15, 0x68, 0x74, 0x74, 0x70, 0x3A, 0x2F, 0x2F, 0x77, 0x77, 0x77, 0x2E,
      0x63, 0x61, 0x63, 0x65, 0x72, 0x74, 0x2E, 0x6F, 0x72, 0x67, 0x31, 0x22,
      0x30, 0x20, 0x06, 0x03, 0x55, 0x04, 0x03, 0x13, 0x19, 0x43, 0x41, 0x20,
      0x43, 0x65, 0x72, 0x74, 0x20, 0x53, 0x69, 0x67, 0x6E, 0x69, 0x6E, 0x67,
      0x20, 0x41, 0x75, 0x74, 0x68, 0x6F, 0x72, 0x69, 0x74, 0x79, 0x31, 0x21,
      0x30, 0x1F, 0x06, 0x09, 0x2A, 0x86, 0x48, 0x86, 0xF7, 0x0D, 0x01, 0x09,
      0x01, 0x16, 0x12, 0x73, 0x75, 0x70, 0x70, 0x6F, 0x72, 0x74, 0x40, 0x63,
      0x61, 0x63, 0x65, 0x72, 0x74, 0x2E, 0x6F, 0x72, 0x67, 0x30, 0x82, 0x02,
      0x22, 0x30, 0x0D, 0x06, 0x09, 0x2A, 0x86, 0x48, 0x86, 0xF7, 0x0D, 0x01,
      0x01, 0x01, 0x05, 0x00, 0x03, 0x82, 0x02, 0x0F, 0x00, 0x30, 0x82, 0x02,
      0x0A, 0x02, 0x82, 0x02, 0x01, 0x00, 0xCE, 0x22, 0xC0, 0xE2, 0x46, 0x7D,
      0xEC, 0x36, 0x28, 0x07, 0x50, 0x96, 0xF2, 0xA0, 0x33, 0x40, 0x8C, 0x4B,
      0xF1, 0x3B, 0x66, 0x3F, 0x31, 0xE5, 0x6B, 0x02, 0x36, 0xDB, 0xD6, 0x7C,
      0xF6, 0xF1, 0x88, 0x8F, 0x4E, 0x77, 0x36, 0x05, 0x41, 0x95, 0xF9, 0x09,
      0xF0, 0x12, 0xCF, 0x46, 0x86, 0x73, 0x60, 0xB7, 0x6E, 0x7E, 0xE8, 0xC0,
      0x58, 0x64, 0xAE, 0xCD, 0xB0, 0xAD, 0x45, 0x17, 0x0C, 0x63, 0xFA, 0x67,
      0x0A, 0xE8, 0xD6, 0xD2, 0xBF, 0x3E, 0xE7, 0x98, 0xC4, 0xF0, 0x4C, 0xFA,
      0xE0, 0x03, 0xBB, 0x35, 0x5D, 0x6C, 0x21, 0xDE, 0x9E, 0x20, 0xD9, 0xBA,
      0xCD, 0x66, 0x32, 0x37, 0x72, 0xFA, 0xF7, 0x08, 0xF5, 0xC7, 0xCD, 0x58,
      0xC9, 0x8E, 0xE7, 0x0E, 0x5E, 0xEA, 0x3E, 0xFE, 0x1C, 0xA1, 0x14, 0x0A,
      0x15, 0x6C, 0x86, 0x84, 0x5B, 0x64, 0x66, 0x2A, 0x7A, 0xA9, 0x4B, 0x53,
      0x79, 0xF5, 0x88, 0xA2, 0x7B, 0xEE, 0x2F, 0x0A, 0x61, 0x2B, 0x8D, 0xB2,
      0x7E, 0x4D, 0x56, 0xA5, 0x13, 0xEC, 0xEA, 0xDA, 0x92, 0x9E, 0xAC, 0x44,
      0x41, 0x1E, 0x58, 0x60, 0x65, 0x05, 0x66, 0xF8, 0xC0, 0x44, 0xBD, 0xCB,
      0x94, 0xF7, 0x42, 0x7E, 0x0B, 0xF7, 0x65, 0x68, 0x98, 0x51, 0x05, 0xF0,
      0xF3, 0x05, 0x91, 0x04, 0x1D, 0x1B, 0x17, 0x82, 0xEC, 0xC8, 0x57, 0xBB,
      0xC3, 0x6B, 0x7A, 0x88, 0xF1, 0xB0, 0x72, 0xCC, 0x25, 0x5B, 0x20, 0x91,
      0xEC, 0x16, 0x02, 0x12, 0x8F, 0x32, 0xE9, 0x17, 0x18, 0x48, 0xD0, 0xC7,
      0x05, 0x2E, 0x02, 0x30, 0x42, 0xB8, 0x25, 0x9C, 0x05, 0x6B, 0x3F, 0xAA,
      0x3A, 0xA7, 0xEB, 0x53, 0x48, 0xF7, 0xE8, 0xD2, 0xB6, 0x07, 0x98, 0xDC,
      0x1B, 0xC6, 0x34, 0x7F, 0x7F, 0xC9, 0x1C, 0x82, 0x7A, 0x05, 0x58, 0x2B,
      0x08, 0x5B, 0xF3, 0x38, 0xA2, 0xAB, 0x17, 0x5D, 0x66, 0xC9, 0x98, 0xD7,
      0x9E, 0x10, 0x8B, 0xA2, 0xD2, 0xDD, 0x74, 0x9A, 0xF7, 0x71, 0x0C, 0x72,
      0x60, 0xDF, 0xCD, 0x6F, 0x98, 0x33, 0x9D, 0x96, 0x34, 0x76, 0x3E, 0x24,
      0x7A, 0x92, 0xB0, 0x0E, 0x95, 0x1E, 0x6F, 0xE6, 0xA0, 0x45, 0x38, 0x47,
      0xAA, 0xD7, 0x41, 0xED, 0x4A, 0xB7, 0x12, 0xF6, 0xD7, 0x1B, 0x83, 0x8A,
      0x0F, 0x2E, 0xD8, 0x09, 0xB6, 0x59, 0xD7, 0xAA, 0x04, 0xFF, 0xD2, 0x93,
      0x7D, 0x68, 0x2E, 0xDD, 0x8B, 0x4B, 0xAB, 0x58, 0xBA, 0x2F, 0x8D, 0xEA,
      0x95, 0xA7, 0xA0, 0xC3, 0x54, 0x89, 0xA5, 0xFB, 0xDB, 0x8B, 0x51, 0x22,
      0x9D, 0xB2, 0xC3, 0xBE, 0x11, 0xBE, 0x2C, 0x91, 0x86, 0x8B, 0x96, 0x78,
      0xAD, 0x20, 0xD3, 0x8A, 0x2F, 0x1A, 0x3F, 0xC6, 0xD0, 0x51, 0x65, 0x87,
      0x21, 0xB1, 0x19, 0x01, 0x65, 0x7F, 0x45, 0x1C, 0x87, 0xF5, 0x7C, 0xD0,
      0x41, 0x4C, 0x4F, 0x29, 0x98, 0x21, 0xFD, 0x33, 0x1F, 0x75, 0x0C, 0x04,
      0x51, 0xFA, 0x19, 0x77, 0xDB, 0xD4, 0x14, 0x1C, 0xEE, 0x81, 0xC3, 0x1D,
      0xF5, 0x98, 0xB7, 0x69, 0x06, 0x91, 0x22, 0xDD, 0x00, 0x50, 0xCC, 0x81,
      0x31, 0xAC, 0x12, 0x07, 0x7B, 0x38, 0xDA, 0x68, 0x5B, 0xE6, 0x2B, 0xD4,
      0x7E, 0xC9, 0x5F, 0xAD, 0xE8, 0xEB, 0x72, 0x4C, 0xF3, 0x01, 0xE5, 0x4B,
      0x20, 0xBF, 0x9A, 0xA6, 0x57, 0xCA, 0x91, 0x00, 0x01, 0x8B, 0xA1, 0x75,
      0x21, 0x37, 0xB5, 0x63, 0x0D, 0x67, 0x3E, 0x46, 0x4F, 0x70, 0x20, 0x67,
      0xCE, 0xC5, 0xD6, 0x59, 0xDB, 0x02, 0xE0, 0xF0, 0xD2, 0xCB, 0xCD, 0xBA,
      0x62, 0xB7, 0x90, 0x41, 0xE8, 0xDD, 0x20, 0xE4, 0x29, 0xBC, 0x64, 0x29,
      0x42, 0xC8, 0x22, 0xDC, 0x78, 0x9A, 0xFF, 0x43, 0xEC, 0x98, 0x1B, 0x09,
      0x51, 0x4B, 0x5A, 0x5A, 0xC2, 0x71, 0xF1, 0xC4, 0xCB, 0x73, 0xA9, 0xE5,
      0xA1, 0x0B, 0x02, 0x03, 0x01, 0x00, 0x01, 0xA3, 0x82, 0x01, 0xCE, 0x30,
      0x82, 0x01, 0xCA, 0x30, 0x1D, 0x06, 0x03, 0x55, 0x1D, 0x0E, 0x04, 0x16,
      0x04, 0x14, 0x16, 0xB5, 0x32, 0x1B, 0xD4, 0xC7, 0xF3, 0xE0, 0xE6, 0x8E,
      0xF3, 0xBD, 0xD2, 0xB0, 0x3A, 0xEE, 0xB2, 0x39, 0x18, 0xD1, 0x30, 0x81,
      0xA3, 0x06, 0x03, 0x55, 0x1D, 0x23, 0x04, 0x81, 0x9B, 0x30, 0x81, 0x98,
      0x80, 0x14, 0x16, 0xB5, 0x32, 0x1B, 0xD4, 0xC7, 0xF3, 0xE0, 0xE6, 0x8E,
      0xF3, 0xBD, 0xD2, 0xB0, 0x3A, 0xEE, 0xB2, 0x39, 0x18, 0xD1, 0xA1, 0x7D,
      0xA4, 0x7B, 0x30, 0x79, 0x31, 0x10, 0x30, 0x0E, 0x06, 0x03, 0x55, 0x04,
      0x0A, 0x13, 0x07, 0x52, 0x6F, 0x6F, 0x74, 0x20, 0x43, 0x41, 0x31, 0x1E,
      0x30, 0x1C, 0x06, 0x03, 0x55, 0x04, 0x0B, 0x13, 0x15, 0x68, 0x74, 0x74,
      0x70, 0x3A, 0x2F, 0x2F, 0x77, 0x77, 0x77, 0x2E, 0x63, 0x61, 0x63, 0x65,
      0x72, 0x74, 0x2E, 0x6F, 0x72, 0x67, 0x31, 0x22, 0x30, 0x20, 0x06, 0x03,
      0x55, 0x04, 0x03, 0x13, 0x19, 0x43, 0x41, 0x20, 0x43, 0x65, 0x72, 0x74,
      0x20, 0x53, 0x69, 0x67, 0x6E, 0x69, 0x6E, 0x67, 0x20, 0x41, 0x75, 0x74,
      0x68, 0x6F, 0x72, 0x69, 0x74, 0x79, 0x31, 0x21, 0x30, 0x1F, 0x06, 0x09,
      0x2A, 0x86, 0x48, 0x86, 0xF7, 0x0D, 0x01, 0x09, 0x01, 0x16, 0x12, 0x73,
      0x75, 0x70, 0x70, 0x6F, 0x72, 0x74, 0x40, 0x63, 0x61, 0x63, 0x65, 0x72,
      0x74, 0x2E, 0x6F, 0x72, 0x67, 0x82, 0x01, 0x00, 0x30, 0x0F, 0x06, 0x03,
      0x55, 0x1D, 0x13, 0x01, 0x01, 0xFF, 0x04, 0x05, 0x30, 0x03, 0x01, 0x01,
      0xFF, 0x30, 0x32, 0x06, 0x03, 0x55, 0x1D, 0x1F, 0x04, 0x2B, 0x30, 0x29,
      0x30, 0x27, 0xA0, 0x25, 0xA0, 0x23, 0x86, 0x21, 0x68, 0x74, 0x74, 0x70,
      0x73, 0x3A, 0x2F, 0x2F, 0x77, 0x77, 0x77, 0x2E, 0x63, 0x61, 0x63, 0x65,
      0x72, 0x74, 0x2E, 0x6F, 0x72, 0x67, 0x2F, 0x72, 0x65, 0x76, 0x6F, 0x6B,
      0x65, 0x2E, 0x63, 0x72, 0x6C, 0x30, 0x30, 0x06, 0x09, 0x60, 0x86, 0x48,
      0x01, 0x86, 0xF8, 0x42, 0x01, 0x04, 0x04, 0x23, 0x16, 0x21, 0x68, 0x74,
      0x74, 0x70, 0x73, 0x3A, 0x2F, 0x2F, 0x77, 0x77, 0x77, 0x2E, 0x63, 0x61,
      0x63, 0x65, 0x72, 0x74, 0x2E, 0x6F, 0x72, 0x67, 0x2F, 0x72, 0x65, 0x76,
      0x6F, 0x6B, 0x65, 0x2E, 0x63, 0x72, 0x6C, 0x30, 0x34, 0x06, 0x09, 0x60,
      0x86, 0x48, 0x01, 0x86, 0xF8, 0x42, 0x01, 0x08, 0x04, 0x27, 0x16, 0x25,
      0x68, 0x74, 0x74, 0x70, 0x3A, 0x2F, 0x2F, 0x77, 0x77, 0x77, 0x2E, 0x63,
      0x61, 0x63, 0x65, 0x72, 0x74, 0x2E, 0x6F, 0x72, 0x67, 0x2F, 0x69, 0x6E,
      0x64, 0x65, 0x78, 0x2E, 0x70, 0x68, 0x70, 0x3F, 0x69, 0x64, 0x3D, 0x31,
      0x30, 0x30, 0x56, 0x06, 0x09, 0x60, 0x86, 0x48, 0x01, 0x86, 0xF8, 0x42,
      0x01, 0x0D, 0x04, 0x49, 0x16, 0x47, 0x54, 0x6F, 0x20, 0x67, 0x65, 0x74,
      0x20, 0x79, 0x6F, 0x75, 0x72, 0x20, 0x6F, 0x77, 0x6E, 0x20, 0x63, 0x65,
      0x72, 0x74, 0x69, 0x66, 0x69, 0x63, 0x61, 0x74, 0x65, 0x20, 0x66, 0x6F,
      0x72, 0x20, 0x46, 0x52, 0x45, 0x45, 0x20, 0x68, 0x65, 0x61, 0x64, 0x20,
      0x6F, 0x76, 0x65, 0x72, 0x20, 0x74, 0x6F, 0x20, 0x68, 0x74, 0x74, 0x70,
      0x3A, 0x2F, 0x2F, 0x77, 0x77, 0x77, 0x2E, 0x63, 0x61, 0x63, 0x65, 0x72,
      0x74, 0x2E, 0x6F, 0x72, 0x67, 0x30, 0x0D, 0x06, 0x09, 0x2A, 0x86, 0x48,
      0x86, 0xF7, 0x0D, 0x01, 0x01, 0x04, 0x05, 0x00, 0x03, 0x82, 0x02, 0x01,
      0x00, 0x28, 0xC7, 0xEE, 0x9C, 0x82, 0x02, 0xBA, 0x5C, 0x80, 0x12, 0xCA,
      0x35, 0x0A, 0x1D, 0x81, 0x6F, 0x89, 0x6A, 0x99, 0xCC, 0xF2, 0x68, 0x0F,
      0x7F, 0xA7, 0xE1, 0x8D, 0x58, 0x95, 0x3E, 0xBD, 0xF2, 0x06, 0xC3, 0x90,
      0x5A, 0xAC, 0xB5, 0x60, 0xF6, 0x99, 0x43, 0x01, 0xA3, 0x88, 0x70, 0x9C,
      0x9D, 0x62, 0x9D, 0xA4, 0x87, 0xAF, 0x67, 0x58, 0x0D, 0x30, 0x36, 0x3B,
      0xE6, 0xAD, 0x48, 0xD3, 0xCB, 0x74, 0x02, 0x86, 0x71, 0x3E, 0xE2, 0x2B,
      0x03, 0x68, 0xF1, 0x34, 0x62, 0x40, 0x46, 0x3B, 0x53, 0xEA, 0x28, 0xF4,
      0xAC, 0xFB, 0x66, 0x95, 0x53, 0x8A, 0x4D, 0x5D, 0xFD, 0x3B, 0xD9, 0x60,
      0xD7, 0xCA, 0x79, 0x69, 0x3B, 0xB1, 0x65, 0x92, 0xA6, 0xC6, 0x81, 0x82,
      0x5C, 0x9C, 0xCD, 0xEB, 0x4D, 0x01, 0x8A, 0xA5, 0xDF, 0x11, 0x55, 0xAA,
      0x15, 0xCA, 0x1F, 0x37, 0xC0, 0x82, 0x98, 0x70, 0x61, 0xDB, 0x6A, 0x7C,
      0x96, 0xA3, 0x8E, 0x2E, 0x54, 0x3E, 0x4F, 0x21, 0xA9, 0x90, 0xEF, 0xDC,
      0x82, 0xBF, 0xDC, 0xE8, 0x45, 0xAD, 0x4D, 0x90, 0x73, 0x08, 0x3C, 0x94,
      0x65, 0xB0, 0x04, 0x99, 0x76, 0x7F, 0xE2, 0xBC, 0xC2, 0x6A, 0x15, 0xAA,
      0x97, 0x04, 0x37, 0x24, 0xD8, 0x1E, 0x94, 0x4E, 0x6D, 0x0E, 0x51, 0xBE,
      0xD6, 0xC4, 0x8F, 0xCA, 0x96, 0x6D, 0xF7, 0x43, 0xDF, 0xE8, 0x30, 0x65,
      0x27, 0x3B, 0x7B, 0xBB, 0x43, 0x43, 0x63, 0xC4, 0x43, 0xF7, 0xB2, 0xEC,
      0x68, 0xCC, 0xE1, 0x19, 0x8E, 0x22, 0xFB, 0x98, 0xE1, 0x7B, 0x5A, 0x3E,
      0x01, 0x37, 0x3B, 0x8B, 0x08, 0xB0, 0xA2, 0xF3, 0x95, 0x4E, 0x1A, 0xCB,
      0x9B, 0xCD, 0x9A, 0xB1, 0xDB, 0xB2, 0x70, 0xF0, 0x2D, 0x4A, 0xDB, 0xD8,
      0xB0, 0xE3, 0x6F, 0x45, 0x48, 0x33, 0x12, 0xFF, 0xFE, 0x3C, 0x32, 0x2A,
      0x54, 0xF7, 0xC4, 0xF7, 0x8A, 0xF0, 0x88, 0x23, 0xC2, 0x47, 0xFE, 0x64,
      0x7A, 0x71, 0xC0, 0xD1, 0x1E, 0xA6, 0x63, 0xB0, 0x07, 0x7E, 0xA4, 0x2F,
      0xD3, 0x01, 0x8F, 0xDC, 0x9F, 0x2B, 0xB6, 0xC6, 0x08, 0xA9, 0x0F, 0x93,
      0x48, 0x25, 0xFC, 0x12, 0xFD, 0x9F, 0x42, 0xDC, 0xF3, 0xC4, 0x3E, 0xF6,
      0x57, 0xB0, 0xD7, 0xDD, 0x69, 0xD1, 0x06, 0x77, 0x34, 0x0A, 0x4B, 0xD2,
      0xCA, 0xA0, 0xFF, 0x1C, 0xC6, 0x8C, 0xC9, 0x16, 0xBE, 0xC4, 0xCC, 0x32,
      0x37, 0x68, 0x73, 0x5F, 0x08, 0xFB, 0x51, 0xF7, 0x49, 0x53, 0x36, 0x05,
      0x0A, 0x95, 0x02, 0x4C, 0xF2, 0x79, 0x1A, 0x10, 0xF6, 0xD8, 0x3A, 0x75,
      0x9C, 0xF3, 0x1D, 0xF1, 0xA2, 0x0D, 0x70, 0x67, 0x86, 0x1B, 0xB3, 0x16,
      0xF5, 0x2F, 0xE5, 0xA4, 0xEB, 0x79, 0x86, 0xF9, 0x3D, 0x0B, 0xC2, 0x73,
      0x0B, 0xA5, 0x99, 0xAC, 0x6F, 0xFC, 0x67, 0xB8, 0xE5, 0x2F, 0x0B, 0xA6,
      0x18, 0x24, 0x8D, 0x7B, 0xD1, 0x48, 0x35, 0x29, 0x18, 0x40, 0xAC, 0x93,
      0x60, 0xE1, 0x96, 0x86, 0x50, 0xB4, 0x7A, 0x59, 0xD8, 0x8F, 0x21, 0x0B,
      0x9F, 0xCF, 0x82, 0x91, 0xC6, 0x3B, 0xBF, 0x6B, 0xDC, 0x07, 0x91, 0xB9,
      0x97, 0x56, 0x23, 0xAA, 0xB6, 0x6C, 0x94, 0xC6, 0x48, 0x06, 0x3C, 0xE4,
      0xCE, 0x4E, 0xAA, 0xE4, 0xF6, 0x2F, 0x09, 0xDC, 0x53, 0x6F, 0x2E, 0xFC,
      0x74, 0xEB, 0x3A, 0x63, 0x99, 0xC2, 0xA6, 0xAC, 0x89, 0xBC, 0xA7, 0xB2,
      0x44, 0xA0, 0x0D, 0x8A, 0x10, 0xE3, 0x6C, 0xF2, 0x24, 0xCB, 0xFA, 0x9B,
      0x9F, 0x70, 0x47, 0x2E, 0xDE, 0x14, 0x8B, 0xD4, 0xB2, 0x20, 0x09, 0x96,
      0xA2, 0x64, 0xF1, 0x24, 0x1C, 0xDC, 0xA1, 0x35, 0x9C, 0x15, 0xB2, 0xD4,
      0xBC, 0x55, 0x2E, 0x7D, 0x06, 0xF5, 0x9C, 0x0E, 0x55, 0xF4, 0x5A, 0xD6,
      0x93, 0xDA, 0x76, 0xAD, 0x25, 0x73, 0x4C, 0xC5, 0x43
     ]"

text \<open>
  Lines 231 to 247, the address to dial and whether it is trusted: the server and port of
  the record when both are set, no lookup when a proxy is configured, the lookup of the
  account's domain otherwise. The port that \<^verbatim>\<open>xmpp.Resolve\<close> returns is a \<^verbatim>\<open>uint16\<close>.
\<close>

definition resolveAddress ::
  "('u, 'd, 'c, 'cert, 's, 'l, 'cb) connDeps \<Rightarrow> Config \<Rightarrow> string \<Rightarrow>
   (connError + string \<times> bool) \<times> ('d, 'c, 'cert, 'l, 'cb) action list" where
  "resolveAddress deps cfg domain =
     (if length (Server cfg) > 0 \<and> Port cfg > 0
      then (Inr (hostPort (Server cfg) (Port cfg), True), [])
      else if length (Proxies cfg) > 0
      then (Inl ProxyWithoutServer, [])
      else (case Resolve deps domain of
              Inl e \<Rightarrow> (Inl (ResolveFailed e), [Lookup domain])
            | Inr (host, port) \<Rightarrow> (Inr (hostPort host (uint port), False), [Lookup domain])))"

text \<open>
  Lines 249 to 263, the loop over the proxies. The counter of the loop runs from
  \<^verbatim>\<open>len(config.Proxies) - 1\<close> down to 0; the argument \<open>k\<close> here is that counter plus one,
  so that the loop ends at \<open>k = 0\<close> and reads the entry \<open>k - 1\<close>. The variable
  \<^verbatim>\<open>dialer\<close> starts as nil and is set to \<^verbatim>\<open>proxy.Direct\<close> inside the loop only.
\<close>

fun dialerLoop ::
  "('u, 'd, 'c, 'cert, 's, 'l, 'cb) connDeps \<Rightarrow> string list \<Rightarrow> nat \<Rightarrow> 'd option \<Rightarrow>
   connError + 'd option" where
  "dialerLoop deps ps 0 dialer = Inr dialer"
| "dialerLoop deps ps (Suc i) dialer =
     (case urlParse deps (ps ! i) of
        Inl e \<Rightarrow> Inl (ProxyURLInvalid (ps ! i) e)
      | Inr u \<Rightarrow>
          (let forward = (case dialer of None \<Rightarrow> Direct deps | Some d \<Rightarrow> d) in
           case FromURL deps u forward of
             Inl e \<Rightarrow> Inl (ProxyInvalid (ps ! i) e)
           | Inr d \<Rightarrow> dialerLoop deps ps i (Some d)))"

definition buildDialer ::
  "('u, 'd, 'c, 'cert, 's, 'l, 'cb) connDeps \<Rightarrow> string list \<Rightarrow> connError + 'd option" where
  "buildDialer deps ps = dialerLoop deps ps (length ps) None"

text \<open>Lines 265 to 276, the pin.\<close>

definition decodePin :: "string \<Rightarrow> connError + byte list option" where
  "decodePin pin =
     (if length pin > 0
      then (case DecodeString pin of
              Inl e \<Rightarrow> Inl (PinNotHex e)
            | Inr certSHA256 \<Rightarrow>
                if length certSHA256 \<noteq> 32 then Inl PinNot32Bytes else Inr (Some certSHA256))
      else Inr None)"

text \<open>Lines 278 to 294, the policy before the override.\<close>

definition newXMPPConfig ::
  "'l \<Rightarrow> 'cb \<Rightarrow> bool \<Rightarrow> byte list option \<Rightarrow> ('l, 'cb, 'cert, 'c) xmppConfig" where
  "newXMPPConfig logger createCallback addrTrusted certSHA256 =
     \<lparr> Log = logger,
       CreateCallback = createCallback,
       TrustedAddress = addrTrusted,
       Archive = False,
       CertSHA256 = certSHA256,
       TLSConfig = \<lparr> MinVersion = VersionTLS10,
                     CipherSuites = [TLS_ECDHE_ECDSA_WITH_AES_128_GCM_SHA256,
                                     TLS_ECDHE_RSA_WITH_AES_128_GCM_SHA256,
                                     TLS_ECDHE_ECDSA_WITH_AES_128_CBC_SHA,
                                     TLS_ECDHE_ECDSA_WITH_AES_256_CBC_SHA,
                                     TLS_ECDHE_RSA_WITH_AES_128_CBC_SHA,
                                     TLS_ECDHE_RSA_WITH_AES_256_CBC_SHA],
                     RootCAs = None \<rparr>,
       Conn = None \<rparr>"

text \<open>
  Lines 296 to 310, the root pool for one domain: a new pool with the one certificate
  when the embedded bytes parse, and nothing at all when they do not.
\<close>

definition overrideRoots ::
  "('u, 'd, 'c, 'cert, 's, 'l, 'cb) connDeps \<Rightarrow> string \<Rightarrow>
   ('l, 'cb, 'cert, 'c) xmppConfig \<Rightarrow> ('l, 'cb, 'cert, 'c) xmppConfig" where
  "overrideRoots deps domain xmppConfig =
     (if domain = ''jabber.ccc.de''
      then (case ParseCertificate deps caCertRootDER of
              Inr caCertRoot \<Rightarrow>
                xmppConfig \<lparr> TLSConfig := (TLSConfig xmppConfig) \<lparr> RootCAs := Some [caCertRoot] \<rparr> \<rparr>
            | Inl e \<Rightarrow> xmppConfig)
      else xmppConfig)"

text \<open>
  Lines 340 to 353: the transport through the dialer when there is one, then the
  protocol layer. Nothing is called after \<^verbatim>\<open>xmpp.Dial\<close> returns.
\<close>

definition connect ::
  "('u, 'd, 'c, 'cert, 's, 'l, 'cb) connDeps \<Rightarrow> 'd option \<Rightarrow> string \<Rightarrow> string \<Rightarrow> string \<Rightarrow>
   string \<Rightarrow> ('l, 'cb, 'cert, 'c) xmppConfig \<Rightarrow>
   (connError + 's) \<times> ('d, 'c, 'cert, 'l, 'cb) action list" where
  "connect deps dialer addr user domain password xmppConfig =
     (case dialer of
        None \<Rightarrow>
          (case xmppDial deps addr user domain password xmppConfig of
             Inl e \<Rightarrow> (Inl (XMPPConnectFailed e), [XMPPDial addr user domain password xmppConfig])
           | Inr conn \<Rightarrow> (Inr conn, [XMPPDial addr user domain password xmppConfig]))
      | Some d \<Rightarrow>
          (case Dial deps d ''tcp'' addr of
             Inl e \<Rightarrow> (Inl (ProxyConnectFailed e), [DialerDial d ''tcp'' addr])
           | Inr c \<Rightarrow>
               (let xmppConfig' = xmppConfig \<lparr> Conn := Some c \<rparr> in
                case xmppDial deps addr user domain password xmppConfig' of
                  Inl e \<Rightarrow>
                    (Inl (XMPPConnectFailed e),
                     [DialerDial d ''tcp'' addr, XMPPDial addr user domain password xmppConfig'])
                | Inr conn \<Rightarrow>
                    (Inr conn,
                     [DialerDial d ''tcp'' addr, XMPPDial addr user domain password xmppConfig']))))"

text \<open>
  The whole function. The record is reached through a pointer, so the function returns
  the record as it leaves it, beside its result and the actions it made.
\<close>

definition NewXMPPConn ::
  "('u, 'd, 'c, 'cert, 's, 'l, 'cb) connDeps \<Rightarrow> Config \<Rightarrow> string \<Rightarrow> 'cb \<Rightarrow> 'l \<Rightarrow>
   (connError + 's) \<times> Config \<times> ('d, 'c, 'cert, 'l, 'cb) action list" where
  "NewXMPPConn deps config password createCallback logger =
     (let parts = SplitN2 (Account config) CHR ''@'' in
      if length parts \<noteq> 2 then (Inl (InvalidUsername (Account config)), config, [])
      else
        (let user = parts ! 0; domain = parts ! 1 in
         case resolveAddress deps config domain of
           (Inl e, acts) \<Rightarrow> (Inl e, config, acts)
         | (Inr (addr, addrTrusted), acts) \<Rightarrow>
             (case buildDialer deps (Proxies config) of
                Inl e \<Rightarrow> (Inl e, config, acts)
              | Inr dialer \<Rightarrow>
                  (case decodePin (ServerCertificateSHA256 config) of
                     Inl e \<Rightarrow> (Inl e, config, acts)
                   | Inr certSHA256 \<Rightarrow>
                       (let xmppConfig =
                              overrideRoots deps domain
                                (newXMPPConfig logger createCallback addrTrusted certSHA256);
                            (r, acts') = connect deps dialer addr user domain password xmppConfig
                        in (r, config, acts @ acts'))))))"

subsection \<open>enroll\<close>

text \<open>
  The terminal is the list of the answers still to come, each the pair that
  \<^verbatim>\<open>term.ReadLine\<close> returns: the line and the error, if any. When the list is used up
  the next read fails with the end of the input. What the wizard shows and what it asks
  of the world goes to a log: the prompts it sets, the messages of \<^verbatim>\<open>warn\<close>,
  \<^verbatim>\<open>info\<close> and \<^verbatim>\<open>alert\<close>, the files it reads and the lookups it makes.
\<close>

type_synonym reading = "string \<times> string option"

datatype event =
    SetPrompt string
  | Warn string
  | Info string
  | Alert string
  | FileRead string
  | SRVLookup string

text \<open>
  The collaborators of the wizard alone: \<^verbatim>\<open>coyconf.ParseYes\<close>, \<^verbatim>\<open>ioutil.ReadFile\<close>,
  the private key of \<^verbatim>\<open>otr3\<close> (the zero value of the variable, \<^verbatim>\<open>Import\<close>, which
  changes the key and says whether it parsed, \<^verbatim>\<open>Generate\<close> on the system's
  randomness, \<^verbatim>\<open>Serialize\<close>) and \<^verbatim>\<open>strconv.Atoi\<close>, which returns a number and an
  error.
\<close>

record ('u, 'd, 'k) wizardDeps = "('u, 'd) netDeps" +
  ParseYes :: "string \<Rightarrow> bool"
  ReadFile :: "string \<Rightarrow> string + byte list"
  zeroKey :: 'k
  Import :: "'k \<Rightarrow> byte list \<Rightarrow> bool \<times> 'k"
  Generate :: "'k \<Rightarrow> 'k"
  Serialize :: "'k \<Rightarrow> byte list"
  Atoi :: "string \<Rightarrow> int \<times> string option"

definition ReadLine :: "reading list \<Rightarrow> reading \<times> reading list" where
  "ReadLine ins = (case ins of [] \<Rightarrow> (([], Some ''EOF''), []) | r # rest \<Rightarrow> (r, rest))"

text \<open>
  Lines 34 to 47, the account: the result is the domain, or \<open>None\<close> when the wizard
  returns false.
\<close>

fun accountPrompt ::
  "Config \<Rightarrow> reading list \<Rightarrow> event list \<Rightarrow>
   string option \<times> Config \<times> reading list \<times> event list" where
  "accountPrompt config [] log =
     (None, config \<lparr> Account := [] \<rparr>, [],
      log @ [SetPrompt ''Account (i.e. user@example.com, enter to quit): ''])"
| "accountPrompt config ((line, err) # ins) log =
     (let log1 = log @ [SetPrompt ''Account (i.e. user@example.com, enter to quit): ''];
          config1 = config \<lparr> Account := line \<rparr>
      in if err \<noteq> None \<or> length line = 0 then (None, config1, ins, log1)
         else (let parts = SplitN2 line CHR ''@'' in
               if length parts \<noteq> 2
               then accountPrompt config1 ins
                      (log1 @ [Alert (''invalid username (want user@domain): '' @ line)])
               else (Some (parts ! 1), config1, ins, log1)))"

text \<open>Lines 49 to 55.\<close>

definition debugPrompt ::
  "('u, 'd, 'k) wizardDeps \<Rightarrow> Config \<Rightarrow> reading list \<Rightarrow> event list \<Rightarrow>
   Config \<times> reading list \<times> event list" where
  "debugPrompt deps config ins log =
     (let log1 = log @ [SetPrompt ''Enable debug logging to /tmp/xmpp-client-debug.log? ''];
          ((debugLog, err), ins1) = ReadLine ins
      in if err \<noteq> None \<or> \<not> ParseYes deps debugLog
         then (config, ins1, log1 @ [Info ''Not enabling debug logging...''])
         else (config \<lparr> RawLogFile := ''/tmp/xmpp-client-debug.log'' \<rparr>, ins1,
               log1 @ [Info ''Debug logging enabled...'']))"

text \<open>Lines 57 to 64.\<close>

definition torPrompt ::
  "('u, 'd, 'k) wizardDeps \<Rightarrow> Config \<Rightarrow> reading list \<Rightarrow> event list \<Rightarrow>
   Config \<times> reading list \<times> event list" where
  "torPrompt deps config ins log =
     (let log1 = log @ [SetPrompt ''Use Tor?: ''];
          ((useTorQuery, err), ins1) = ReadLine ins
      in if err \<noteq> None \<or> length useTorQuery = 0 \<or> \<not> ParseYes deps useTorQuery
         then (config \<lparr> UseTor := False \<rparr>, ins1, log1 @ [Info ''Not using Tor...''])
         else (config \<lparr> UseTor := True \<rparr>, ins1, log1 @ [Info ''Using Tor...'']))"

text \<open>
  Lines 69 to 91, the loop of the key: \<open>None\<close> when the read fails, the key otherwise.
  A file that cannot be read or parsed asks again.
\<close>

fun keyLoop ::
  "('u, 'd, 'k) wizardDeps \<Rightarrow> 'k \<Rightarrow> reading list \<Rightarrow> event list \<Rightarrow>
   'k option \<times> reading list \<times> event list" where
  "keyLoop deps priv [] log = (None, [], log)"
| "keyLoop deps priv ((importFile, err) # ins) log =
     (if err \<noteq> None then (None, ins, log)
      else if length importFile > 0
      then (case ReadFile deps importFile of
              Inl e \<Rightarrow>
                keyLoop deps priv ins
                  (log @ [FileRead importFile, Alert (''Failed to open private key file: '' @ e)])
            | Inr privKeyBytes \<Rightarrow>
                (case Import deps priv privKeyBytes of
                   (False, priv1) \<Rightarrow>
                     keyLoop deps priv1 ins
                       (log @ [FileRead importFile,
                               Alert ''Failed to parse libotr private key file (the parser is pretty simple I'm afraid)''])
                 | (True, priv1) \<Rightarrow> (Some priv1, ins, log @ [FileRead importFile])))
      else (Some (Generate deps priv), ins, log @ [Info ''Generating private key...'']))"

text \<open>Lines 98 to 105, the table of the hidden services.\<close>

definition knownTorDomain :: "string \<rightharpoonup> string" where
  "knownTorDomain =
     map_of [(''jabber.ccc.de'', ''okj7xc6j2szr2y75.onion''),
             (''riseup.net'', ''4cjw6cwpeaeppfqz.onion''),
             (''jabber.calyxinstitute.org'', ''ijeeynrc6x2uy5ob.onion''),
             (''jabber.otr.im'', ''5rgdtlawqkcplz75.onion''),
             (''wtfismyip.com'', ''ofkztxcohimx34la.onion'')]"

text \<open>
  Lines 125 to 146, the loop of the proxy: \<open>None\<close> when the read fails, otherwise the
  value of \<^verbatim>\<open>proxyStr\<close> at the \<^verbatim>\<open>break\<close>.
\<close>

fun proxyLoop ::
  "('u, 'd, 'k) wizardDeps \<Rightarrow> bool \<Rightarrow> reading list \<Rightarrow> event list \<Rightarrow>
   string option \<times> reading list \<times> event list" where
  "proxyLoop deps useTor [] log = (None, [], log)"
| "proxyLoop deps useTor ((line, err) # ins) log =
     (if err \<noteq> None then (None, ins, log)
      else if length line = 0 \<and> \<not> useTor then (Some line, ins, log)
      else
        (let proxyStr = (if length line = 0 then ''socks5://127.0.0.1:9050'' else line) in
         case urlParse deps proxyStr of
           Inl e \<Rightarrow>
             proxyLoop deps useTor ins
               (log @ [Alert (''Failed to parse '' @ proxyStr @ '' as a URL: '' @ e)])
         | Inr u \<Rightarrow>
             (case FromURL deps u (Direct deps) of
                Inl e \<Rightarrow>
                  proxyLoop deps useTor ins
                    (log @ [Alert (''Failed to parse '' @ proxyStr @ '' as a proxy: '' @ e)])
              | Inr d \<Rightarrow> (Some proxyStr, ins, log))))"

text \<open>Lines 166 to 180, the loop of the port; the flag is false when the read fails.\<close>

fun portLoop ::
  "('u, 'd, 'k) wizardDeps \<Rightarrow> Config \<Rightarrow> reading list \<Rightarrow> event list \<Rightarrow>
   bool \<times> Config \<times> reading list \<times> event list" where
  "portLoop deps config [] log = (False, config, [], log @ [SetPrompt ''Port (enter for 5222): ''])"
| "portLoop deps config ((line, err) # ins) log =
     (let log1 = log @ [SetPrompt ''Port (enter for 5222): ''] in
      if err \<noteq> None then (False, config, ins, log1)
      else
        (let portStr = (if length line = 0 then ''5222'' else line);
             (port, perr) = Atoi deps portStr;
             config1 = config \<lparr> Port := port \<rparr>
         in if perr \<noteq> None \<or> port \<le> 0 \<or> port > 65535
            then portLoop deps config1 ins (log1 @ [Info ''Port numbers must be 0 < port <= 65535''])
            else (True, config1, ins, log1)))"

text \<open>
  Lines 148 to 182, entered with a proxy: the server, then the lookup or the port. The
  flag is false where the code returns false. \<^verbatim>\<open>xmpp.Resolve\<close> returns the empty host
  beside an error, so the server, empty at that point, stays empty when the lookup fails.
\<close>

definition serverPrompt ::
  "('u, 'd, 'k) wizardDeps \<Rightarrow> string \<Rightarrow> string \<Rightarrow> Config \<Rightarrow> reading list \<Rightarrow> event list \<Rightarrow>
   bool \<times> Config \<times> reading list \<times> event list" where
  "serverPrompt deps domain proxyStr config ins log =
     (let config1 = config \<lparr> Proxies := [proxyStr] \<rparr>;
          log1 = log @ [Info ''Since you selected a proxy, we need to know the server and port to connect to as a SRV lookup would leak information every time.'',
                        SetPrompt ''Server (i.e. xmpp.example.com, enter to lookup using unproxied DNS): ''];
          ((line, err), ins1) = ReadLine ins;
          config2 = config1 \<lparr> Server := line \<rparr>
      in if err \<noteq> None then (False, config2, ins1, log1)
         else if length (Server config2) = 0
         then (let log2 = log1 @ [Info ''Performing SRV lookup'', SRVLookup domain] in
               case Resolve deps domain of
                 Inl e \<Rightarrow> (False, config2, ins1, log2 @ [Alert (''SRV lookup failed: '' @ e)])
               | Inr (host, port) \<Rightarrow>
                   (let config3 = config2 \<lparr> Server := host, Port := uint port \<rparr> in
                    (True, config3, ins1,
                     log2 @ [Info (''Resolved '' @ Server config3 @ '':'' @ Itoa (Port config3))])))
         else portLoop deps config2 ins1 log1)"

text \<open>
  Lines 118 to 187, reached when the shortcut is not taken: the proxy, and with a proxy
  the server and the port.
\<close>

definition proxyPrompt ::
  "('u, 'd, 'k) wizardDeps \<Rightarrow> string \<Rightarrow> Config \<Rightarrow> reading list \<Rightarrow> event list \<Rightarrow>
   bool \<times> Config \<times> reading list \<times> event list" where
  "proxyPrompt deps domain config ins log =
     (let proxyDefaultPrompt =
            (if UseTor config then '', which is the default'' else '', enter for none'');
          log1 = log @ [SetPrompt (''Proxy (i.e socks5://127.0.0.1:9050'' @ proxyDefaultPrompt @ ''): '')]
      in case proxyLoop deps (UseTor config) ins log1 of
           (None, ins1, log2) \<Rightarrow> (False, config, ins1, log2)
         | (Some proxyStr, ins1, log2) \<Rightarrow>
             if length proxyStr > 0
             then (case serverPrompt deps domain proxyStr config ins1 log2 of
                     (False, config2, ins2, log3) \<Rightarrow> (False, config2, ins2, log3)
                   | (True, config2, ins2, log3) \<Rightarrow>
                       (True, config2, ins2, log3 @ [SetPrompt ''> '']))
             else (True, config, ins1, log2 @ [SetPrompt ''> '']))"

text \<open>
  Lines 92 to 116, what follows the key: the fixed flags, and the hidden service of a
  known domain when Tor is used.
\<close>

definition afterKey ::
  "('u, 'd, 'k) wizardDeps \<Rightarrow> string \<Rightarrow> 'k \<Rightarrow> Config \<Rightarrow> reading list \<Rightarrow> event list \<Rightarrow>
   bool \<times> Config \<times> reading list \<times> event list" where
  "afterKey deps domain priv config ins log =
     (let config1 = config \<lparr> PrivateKey := Serialize deps priv,
                             OTRAutoAppendTag := True,
                             OTRAutoStartSession := True,
                             OTRAutoTearDown := False \<rparr>
      in case knownTorDomain domain of
           Some hiddenService \<Rightarrow>
             if UseTor config1
             then (True,
                   config1 \<lparr> Server := hiddenService, Port := 5222,
                             Proxies := [''socks5://127.0.0.1:9050''] \<rparr>,
                   ins,
                   log @ [Info ''It appears that you are using a well known server and we will use its Tor hidden service to connect.'',
                          SetPrompt ''> ''])
             else proxyPrompt deps domain config1 ins log
         | None \<Rightarrow> proxyPrompt deps domain config1 ins log)"

text \<open>
  The whole wizard: whether it returns true, the record as it leaves it, the answers
  it has not read, and the log.
\<close>

definition enroll ::
  "('u, 'd, 'k) wizardDeps \<Rightarrow> Config \<Rightarrow> reading list \<Rightarrow>
   bool \<times> Config \<times> reading list \<times> event list" where
  "enroll deps config ins =
     (case accountPrompt config ins [Warn ''Enrolling new config file''] of
        (None, config1, ins1, log1) \<Rightarrow> (False, config1, ins1, log1)
      | (Some domain, config1, ins1, log1) \<Rightarrow>
          (let (config2, ins2, log2) = debugPrompt deps config1 ins1 log1;
               (config3, ins3, log3) = torPrompt deps config2 ins2 log2;
               log4 = log3 @ [SetPrompt ''File to import libotr private key from (enter to generate): '']
           in case keyLoop deps (zeroKey deps) ins3 log4 of
                (None, ins5, log5) \<Rightarrow> (False, config3, ins5, log5)
              | (Some priv, ins5, log5) \<Rightarrow> afterKey deps domain priv config3 ins5 log5))"

subsection \<open>The identity as the specification words it\<close>

text \<open>
  The specification's rule for an account, written down beside the code's: exactly one
  \<^verbatim>\<open>@\<close>, with a local part before it and a domain after it that are not empty.
\<close>

definition specIdentityValid :: "string \<Rightarrow> bool" where
  "specIdentityValid s =
     (count_list s CHR ''@'' = 1
      \<and> takeWhile (\<lambda>c. c \<noteq> CHR ''@'') s \<noteq> []
      \<and> tl (dropWhile (\<lambda>c. c \<noteq> CHR ''@'') s) \<noteq> [])"

text \<open>
  The specification's rule for the chain of proxies: start from the direct dialer and
  wrap it with the entries from the last to the first, so that the first entry of the
  list is the outermost wrapper.
\<close>

fun specChain :: "('u, 'd, 'z) netDeps_scheme \<Rightarrow> string list \<Rightarrow> connError + 'd" where
  "specChain deps [] = Inr (Direct deps)"
| "specChain deps (p # ps) =
     (case specChain deps ps of
        Inl e \<Rightarrow> Inl e
      | Inr forward \<Rightarrow>
          (case urlParse deps p of
             Inl e \<Rightarrow> Inl (ProxyURLInvalid p e)
           | Inr u \<Rightarrow>
               (case FromURL deps u forward of
                  Inl e \<Rightarrow> Inl (ProxyInvalid p e)
                | Inr d \<Rightarrow> Inr d)))"

subsection \<open>A small world to run the functions in\<close>

text \<open>
  The record that \<^verbatim>\<open>new(coyconf.Config)\<close> gives in \<^verbatim>\<open>loadConfig\<close>: every field at
  its zero value.
\<close>

definition emptyConfig :: Config where
  "emptyConfig =
     \<lparr> Account = [], RawLogFile = [], UseTor = False, PrivateKey = [],
       OTRAutoAppendTag = False, OTRAutoStartSession = False, OTRAutoTearDown = False,
       Server = [], Port = 0, Proxies = [], ServerCertificateSHA256 = [] \<rparr>"

text \<open>
  Collaborators for the examples. A parsed address is the text itself, a dialer is the
  list of the proxies it goes through with the outermost first, a connection, a session
  and a key are numbers or bytes. One domain resolves, an address with a blank does not
  parse, only the scheme \<^verbatim>\<open>socks5\<close> makes a proxy, one address refuses the connection,
  and the protocol layer accepts one password.
\<close>

definition exampleConnDeps ::
  "(string, string list, nat, byte list, nat, unit, unit) connDeps" where
  "exampleConnDeps =
     \<lparr> Resolve = (\<lambda>d. if d = ''example.com'' then Inr (''xmpp.example.com'', 5269)
                       else Inl ''no such host''),
       urlParse = (\<lambda>s. if CHR '' '' \<in> set s then Inl ''invalid character in host name'' else Inr s),
       FromURL = (\<lambda>u forward. if take 9 u = ''socks5://'' then Inr (u # forward)
                               else Inl ''unknown scheme''),
       Direct = [],
       Dial = (\<lambda>d network addr. if addr = ''closed.example.com:5222'' then Inl ''connection refused''
                                 else Inr 3),
       ParseCertificate = (\<lambda>der. Inr der),
       xmppDial = (\<lambda>addr user domain password xmppConfig.
                     if password = ''secret'' then Inr 1 else Inl ''authentication failed'') \<rparr>"

definition exampleWizardDeps :: "(string, string list, byte list) wizardDeps" where
  "exampleWizardDeps =
     \<lparr> Resolve = (\<lambda>d. if d = ''example.com'' then Inr (''xmpp.example.com'', 5269)
                       else Inl ''no such host''),
       urlParse = (\<lambda>s. if CHR '' '' \<in> set s then Inl ''invalid character in host name'' else Inr s),
       FromURL = (\<lambda>u forward. if take 9 u = ''socks5://'' then Inr (u # forward)
                               else Inl ''unknown scheme''),
       Direct = [],
       ParseYes = (\<lambda>s. s \<in> {''y'', ''yes''}),
       ReadFile = (\<lambda>path. Inl ''no such file or directory''),
       zeroKey = [],
       Import = (\<lambda>priv bytes. (False, priv)),
       Generate = (\<lambda>priv. [1, 2, 3]),
       Serialize = (\<lambda>priv. priv),
       Atoi = (\<lambda>s. if s = ''5222'' then (5222, None) else (0, Some ''invalid syntax'')) \<rparr>"

section \<open>Properties\<close>

subsection \<open>Shapes of the results\<close>

lemma SplitN2_length: "length (SplitN2 s c) = 2 \<longleftrightarrow> c \<in> set s"
  by (simp add: SplitN2_def)

lemma SplitN2_parts:
  assumes "c \<in> set s"
  shows "s = (SplitN2 s c ! 0) @ c # (SplitN2 s c ! 1)" and "c \<notin> set (SplitN2 s c ! 0)"
proof -
  from assms have ne: "dropWhile (\<lambda>x. x \<noteq> c) s \<noteq> []" by simp
  then have "hd (dropWhile (\<lambda>x. x \<noteq> c) s) = c"
    using hd_dropWhile [of "\<lambda>x. x \<noteq> c" s] by simp
  with ne have "dropWhile (\<lambda>x. x \<noteq> c) s = c # tl (dropWhile (\<lambda>x. x \<noteq> c) s)"
    by (cases "dropWhile (\<lambda>x. x \<noteq> c) s") auto
  then have "s = takeWhile (\<lambda>x. x \<noteq> c) s @ c # tl (dropWhile (\<lambda>x. x \<noteq> c) s)"
    using takeWhile_dropWhile_id [of "\<lambda>x. x \<noteq> c" s] by simp
  with assms show "s = (SplitN2 s c ! 0) @ c # (SplitN2 s c ! 1)"
    by (simp add: SplitN2_def)
  from assms show "c \<notin> set (SplitN2 s c ! 0)"
    by (auto simp: SplitN2_def dest: set_takeWhileD)
qed

lemma dialerLoop_error:
  "dialerLoop deps ps k d = Inl e \<Longrightarrow>
     \<exists>i<k. \<exists>m. e = ProxyURLInvalid (ps ! i) m \<or> e = ProxyInvalid (ps ! i) m"
proof (induction k arbitrary: d)
  case 0
  then show ?case by simp
next
  case (Suc k)
  then show ?case
    by (fastforce simp: Let_def less_Suc_eq split: sum.splits)
qed

lemma resolveAddress_error:
  "resolveAddress deps cfg dmn = (Inl e, acts) \<Longrightarrow> e = ProxyWithoutServer \<or> (\<exists>m. e = ResolveFailed m)"
  by (auto simp: resolveAddress_def split: if_splits sum.splits prod.splits)

lemma decodePin_error:
  "decodePin pin = Inl e \<Longrightarrow> e = PinNot32Bytes \<or> (\<exists>h. e = PinNotHex h)"
  by (auto simp: decodePin_def split: if_splits sum.splits)

lemma connect_error:
  "connect deps dialer addr user dmn pw xc = (Inl e, acts) \<Longrightarrow>
     (\<exists>m. e = ProxyConnectFailed m) \<or> (\<exists>m. e = XMPPConnectFailed m)"
  by (auto simp: connect_def Let_def split: option.splits sum.splits)

lemma NewXMPPConn_invalid:
  "CHR ''@'' \<notin> set (Account cfg) \<Longrightarrow>
     NewXMPPConn deps cfg pw cb lg = (Inl (InvalidUsername (Account cfg)), cfg, [])"
  by (simp add: NewXMPPConn_def SplitN2_def)

lemma NewXMPPConn_valid:
  assumes "CHR ''@'' \<in> set (Account cfg)"
  shows "fst (NewXMPPConn deps cfg pw cb lg) \<noteq> Inl (InvalidUsername x)"
proof -
  have len: "length (SplitN2 (Account cfg) CHR ''@'') = 2"
    using assms by (simp add: SplitN2_length)
  show ?thesis
    unfolding NewXMPPConn_def Let_def
    using len
    by (auto split: prod.splits sum.splits
        dest!: resolveAddress_error decodePin_error connect_error dialerLoop_error
        simp: buildDialer_def)
qed

lemma resolveAddress_actions:
  "resolveAddress deps cfg dmn = (r, acts) \<Longrightarrow> acts = [] \<or> acts = [Lookup dmn]"
  by (auto simp: resolveAddress_def split: if_splits sum.splits prod.splits)

lemma connect_actions:
  assumes "connect deps dialer addr user dmn pw xc = (r, acts)"
  shows "(dialer = None \<and> acts = [XMPPDial addr user dmn pw xc])
       \<or> (\<exists>d m. dialer = Some d \<and> Dial deps d ''tcp'' addr = Inl m \<and> acts = [DialerDial d ''tcp'' addr]
              \<and> r = Inl (ProxyConnectFailed m))
       \<or> (\<exists>d c. dialer = Some d \<and> Dial deps d ''tcp'' addr = Inr c
              \<and> acts = [DialerDial d ''tcp'' addr, XMPPDial addr user dmn pw (xc \<lparr> Conn := Some c \<rparr>)])"
  using assms by (auto simp: connect_def Let_def split: option.splits sum.splits)

lemma NewXMPPConn_cases:
  assumes "NewXMPPConn deps cfg pw cb lg = (r, cfg', acts)"
  defines "user \<equiv> takeWhile (\<lambda>x. x \<noteq> CHR ''@'') (Account cfg)"
    and "dmn \<equiv> tl (dropWhile (\<lambda>x. x \<noteq> CHR ''@'') (Account cfg))"
  shows "cfg' = cfg \<and>
    ((CHR ''@'' \<notin> set (Account cfg) \<and> r = Inl (InvalidUsername (Account cfg)) \<and> acts = [])
   \<or> (CHR ''@'' \<in> set (Account cfg) \<and>
       (\<exists>e. resolveAddress deps cfg dmn = (Inl e, acts) \<and> r = Inl e))
   \<or> (CHR ''@'' \<in> set (Account cfg) \<and>
       (\<exists>addr tr e. resolveAddress deps cfg dmn = (Inr (addr, tr), acts)
          \<and> buildDialer deps (Proxies cfg) = Inl e \<and> r = Inl e))
   \<or> (CHR ''@'' \<in> set (Account cfg) \<and>
       (\<exists>addr tr dialer e. resolveAddress deps cfg dmn = (Inr (addr, tr), acts)
          \<and> buildDialer deps (Proxies cfg) = Inr dialer
          \<and> decodePin (ServerCertificateSHA256 cfg) = Inl e \<and> r = Inl e))
   \<or> (CHR ''@'' \<in> set (Account cfg) \<and>
       (\<exists>addr tr dialer pin acts0 acts1.
          resolveAddress deps cfg dmn = (Inr (addr, tr), acts0)
          \<and> buildDialer deps (Proxies cfg) = Inr dialer
          \<and> decodePin (ServerCertificateSHA256 cfg) = Inr pin
          \<and> connect deps dialer addr user dmn pw
               (overrideRoots deps dmn (newXMPPConfig lg cb tr pin)) = (r, acts1)
          \<and> acts = acts0 @ acts1)))"
proof (cases "CHR ''@'' \<in> set (Account cfg)")
  case False
  with assms show ?thesis by (auto simp add: NewXMPPConn_def SplitN2_def)
next
  case True
  show ?thesis
    using assms(1) True unfolding NewXMPPConn_def Let_def user_def dmn_def
    by (auto simp: SplitN2_def split: prod.splits sum.splits)
qed

lemma overrideRoots_fields:
  "TrustedAddress (overrideRoots deps dmn xc) = TrustedAddress xc"
  "CertSHA256 (overrideRoots deps dmn xc) = CertSHA256 xc"
  "Conn (overrideRoots deps dmn xc) = Conn xc"
  by (simp_all add: overrideRoots_def split: sum.splits)

lemma NewXMPPConn_XMPPDial:
  assumes "XMPPDial a u d p xc \<in> set (snd (snd (NewXMPPConn deps cfg pw cb lg)))"
  shows "\<exists>tr pin acts0 dialer.
           CHR ''@'' \<in> set (Account cfg)
         \<and> u = takeWhile (\<lambda>x. x \<noteq> CHR ''@'') (Account cfg)
         \<and> d = tl (dropWhile (\<lambda>x. x \<noteq> CHR ''@'') (Account cfg))
         \<and> p = pw
         \<and> resolveAddress deps cfg d = (Inr (a, tr), acts0)
         \<and> buildDialer deps (Proxies cfg) = Inr dialer
         \<and> decodePin (ServerCertificateSHA256 cfg) = Inr pin
         \<and> (dialer = None \<and> xc = overrideRoots deps d (newXMPPConfig lg cb tr pin)
            \<or> (\<exists>dl c. dialer = Some dl \<and> Dial deps dl ''tcp'' a = Inr c
                  \<and> xc = (overrideRoots deps d (newXMPPConfig lg cb tr pin)) \<lparr> Conn := Some c \<rparr>))"
proof -
  obtain r cfg' acts where run: "NewXMPPConn deps cfg pw cb lg = (r, cfg', acts)"
    by (cases "NewXMPPConn deps cfg pw cb lg") auto
  with assms have mem: "XMPPDial a u d p xc \<in> set acts" by simp
  from NewXMPPConn_cases [OF run] mem show ?thesis
  proof (elim conjE disjE exE)
    assume "acts = []" with mem show ?thesis by simp
  next
    fix e assume "resolveAddress deps cfg (tl (dropWhile (\<lambda>x. x \<noteq> CHR ''@'') (Account cfg))) = (Inl e, acts)"
    from resolveAddress_actions [OF this] mem show ?thesis by auto
  next
    fix addr tr e
    assume "resolveAddress deps cfg (tl (dropWhile (\<lambda>x. x \<noteq> CHR ''@'') (Account cfg))) = (Inr (addr, tr), acts)"
    from resolveAddress_actions [OF this] mem show ?thesis by auto
  next
    fix addr tr dialer e
    assume "resolveAddress deps cfg (tl (dropWhile (\<lambda>x. x \<noteq> CHR ''@'') (Account cfg))) = (Inr (addr, tr), acts)"
    from resolveAddress_actions [OF this] mem show ?thesis by auto
  next
    fix addr tr dialer pin acts0 acts1
    assume at: "CHR ''@'' \<in> set (Account cfg)"
      and ra: "resolveAddress deps cfg (tl (dropWhile (\<lambda>x. x \<noteq> CHR ''@'') (Account cfg))) = (Inr (addr, tr), acts0)"
      and bd: "buildDialer deps (Proxies cfg) = Inr dialer"
      and dp: "decodePin (ServerCertificateSHA256 cfg) = Inr pin"
      and co: "connect deps dialer addr (takeWhile (\<lambda>x. x \<noteq> CHR ''@'') (Account cfg))
               (tl (dropWhile (\<lambda>x. x \<noteq> CHR ''@'') (Account cfg))) pw
               (overrideRoots deps (tl (dropWhile (\<lambda>x. x \<noteq> CHR ''@'') (Account cfg))) (newXMPPConfig lg cb tr pin))
              = (r, acts1)"
      and ac: "acts = acts0 @ acts1"
    from resolveAddress_actions [OF ra] mem ac have m1: "XMPPDial a u d p xc \<in> set acts1" by auto
    from connect_actions [OF co] m1 at ra bd dp show ?thesis
      by auto
  qed
qed

subsection \<open>Accounts\<close>

text \<open>
  Claim C2, as the specification has it: an account is accepted exactly when it holds one
  \<^verbatim>\<open>@\<close> with a local part and a domain that are not empty. The code accepts more:
  an account with two \<^verbatim>\<open>@\<close> is cut at the first, and the lone \<^verbatim>\<open>@\<close> is accepted
  with both parts empty, by the wizard and by \<^verbatim>\<open>NewXMPPConn\<close> alike.
\<close>

theorem account_split_counterexample:
  "fst (accountPrompt emptyConfig [(''a@b@c'', None)] []) = Some ''b@c''
   \<and> \<not> specIdentityValid ''a@b@c''
   \<and> fst (accountPrompt emptyConfig [(''@'', None)] []) = Some []
   \<and> \<not> specIdentityValid ''@''
   \<and> NewXMPPConn exampleConnDeps (emptyConfig \<lparr> Account := ''@'' \<rparr>) ''secret'' () ()
       = (Inl (ResolveFailed ''no such host''), emptyConfig \<lparr> Account := ''@'' \<rparr>, [Lookup []])"
  by (simp add: SplitN2_def emptyConfig_def specIdentityValid_def NewXMPPConn_def Let_def
      exampleConnDeps_def resolveAddress_def)

text \<open>
  Claim C2, amended. The split succeeds exactly when the account holds an \<^verbatim>\<open>@\<close>; the
  local part is what stands before the first \<^verbatim>\<open>@\<close> and the domain is all that follows
  it. \<^verbatim>\<open>NewXMPPConn\<close> returns the error of the invalid account exactly when there is
  no \<^verbatim>\<open>@\<close>, and hands these two parts to the protocol layer; the wizard takes the
  domain of a non-empty answer with an \<^verbatim>\<open>@\<close> and asks again after one without.
\<close>

theorem account_split_at_first_at:
  "(length (SplitN2 s CHR ''@'') = 2 \<longleftrightarrow> CHR ''@'' \<in> set s)
   \<and> (CHR ''@'' \<in> set s \<longrightarrow>
        s = SplitN2 s CHR ''@'' ! 0 @ ''@'' @ SplitN2 s CHR ''@'' ! 1
        \<and> CHR ''@'' \<notin> set (SplitN2 s CHR ''@'' ! 0))
   \<and> (fst (NewXMPPConn deps cfg pw cb lg) = Inl (InvalidUsername (Account cfg))
        \<longleftrightarrow> CHR ''@'' \<notin> set (Account cfg))
   \<and> (\<forall>a u d p xc. XMPPDial a u d p xc \<in> set (snd (snd (NewXMPPConn deps cfg pw cb lg))) \<longrightarrow>
          u = SplitN2 (Account cfg) CHR ''@'' ! 0 \<and> d = SplitN2 (Account cfg) CHR ''@'' ! 1)
   \<and> (s \<noteq> [] \<and> CHR ''@'' \<in> set s \<longrightarrow>
        accountPrompt config ((s, None) # ins) log =
          (Some (SplitN2 s CHR ''@'' ! 1), config \<lparr> Account := s \<rparr>, ins,
           log @ [SetPrompt ''Account (i.e. user@example.com, enter to quit): '']))
   \<and> (s \<noteq> [] \<and> CHR ''@'' \<notin> set s \<longrightarrow>
        accountPrompt config ((s, None) # ins) log =
          accountPrompt (config \<lparr> Account := s \<rparr>) ins
            (log @ [SetPrompt ''Account (i.e. user@example.com, enter to quit): '',
                    Alert (''invalid username (want user@domain): '' @ s)]))"
proof (intro conjI impI allI)
  show "(length (SplitN2 s CHR ''@'') = 2) = (CHR ''@'' \<in> set s)"
    by (rule SplitN2_length)
next
  assume "CHR ''@'' \<in> set s"
  then show "s = SplitN2 s CHR ''@'' ! 0 @ ''@'' @ SplitN2 s CHR ''@'' ! 1"
    using SplitN2_parts(1) [of "CHR ''@''" s] by simp
next
  assume "CHR ''@'' \<in> set s"
  then show "CHR ''@'' \<notin> set (SplitN2 s CHR ''@'' ! 0)"
    by (rule SplitN2_parts(2))
next
  show "(fst (NewXMPPConn deps cfg pw cb lg) = Inl (InvalidUsername (Account cfg)))
        = (CHR ''@'' \<notin> set (Account cfg))"
    using NewXMPPConn_invalid [of cfg deps pw cb lg] NewXMPPConn_valid [of cfg deps pw cb lg]
    by auto
next
  fix a u d p xc
  assume "XMPPDial a u d p xc \<in> set (snd (snd (NewXMPPConn deps cfg pw cb lg)))"
  from NewXMPPConn_XMPPDial [OF this]
  show "u = SplitN2 (Account cfg) CHR ''@'' ! 0"
    by (auto simp: SplitN2_def)
next
  fix a u d p xc
  assume "XMPPDial a u d p xc \<in> set (snd (snd (NewXMPPConn deps cfg pw cb lg)))"
  from NewXMPPConn_XMPPDial [OF this]
  show "d = SplitN2 (Account cfg) CHR ''@'' ! 1"
    by (auto simp: SplitN2_def)
next
  assume "s \<noteq> [] \<and> CHR ''@'' \<in> set s"
  then show "accountPrompt config ((s, None) # ins) log =
          (Some (SplitN2 s CHR ''@'' ! 1), config \<lparr> Account := s \<rparr>, ins,
           log @ [SetPrompt ''Account (i.e. user@example.com, enter to quit): ''])"
    by (simp add: SplitN2_def)
next
  assume "s \<noteq> [] \<and> CHR ''@'' \<notin> set s"
  then show "accountPrompt config ((s, None) # ins) log =
          accountPrompt (config \<lparr> Account := s \<rparr>) ins
            (log @ [SetPrompt ''Account (i.e. user@example.com, enter to quit): '',
                    Alert (''invalid username (want user@domain): '' @ s)])"
    by (simp add: SplitN2_def)
qed

text \<open>The amended claim C2 at two accounts, one accepted and one refused.\<close>

theorem account_split_at_first_at_witness:
  "CHR ''@'' \<in> set ''a@b@c''
   \<and> length (SplitN2 ''a@b@c'' CHR ''@'') = 2
   \<and> SplitN2 ''a@b@c'' CHR ''@'' ! 0 = ''a''
   \<and> SplitN2 ''a@b@c'' CHR ''@'' ! 1 = ''b@c''
   \<and> accountPrompt emptyConfig [(''a@b@c'', None)] [] =
       (Some ''b@c'', emptyConfig \<lparr> Account := ''a@b@c'' \<rparr>, [],
        [SetPrompt ''Account (i.e. user@example.com, enter to quit): ''])
   \<and> accountPrompt emptyConfig [(''abc'', None), (''a@b'', None)] [] =
       (Some ''b'', emptyConfig \<lparr> Account := ''a@b'' \<rparr>, [],
        [SetPrompt ''Account (i.e. user@example.com, enter to quit): '',
         Alert ''invalid username (want user@domain): abc'',
         SetPrompt ''Account (i.e. user@example.com, enter to quit): ''])
   \<and> fst (NewXMPPConn exampleConnDeps (emptyConfig \<lparr> Account := ''abc'' \<rparr>) ''secret'' () ())
       = Inl (InvalidUsername ''abc'')"
  using account_split_at_first_at [where s = "''a@b@c''" and config = emptyConfig and ins = "[]"
          and log = "[]" and deps = exampleConnDeps
          and cfg = "emptyConfig \<lparr> Account := ''abc'' \<rparr>" and pw = "''secret''" and cb = "()" and lg = "()"]
        account_split_at_first_at [where s = "''abc''" and config = emptyConfig
          and ins = "[(''a@b'', None)]" and log = "[]" and deps = exampleConnDeps
          and cfg = "emptyConfig \<lparr> Account := ''abc'' \<rparr>" and pw = "''secret''" and cb = "()" and lg = "()"]
  by (simp add: SplitN2_def emptyConfig_def)

subsection \<open>The address to dial\<close>

lemma NewXMPPConn_Lookup:
  assumes "Lookup d \<in> set (snd (snd (NewXMPPConn deps cfg pw cb lg)))"
  shows "CHR ''@'' \<in> set (Account cfg)
       \<and> d = tl (dropWhile (\<lambda>x. x \<noteq> CHR ''@'') (Account cfg))
       \<and> \<not> (Server cfg \<noteq> [] \<and> 0 < Port cfg) \<and> Proxies cfg = []"
proof -
  obtain r cfg' acts where run: "NewXMPPConn deps cfg pw cb lg = (r, cfg', acts)"
    by (cases "NewXMPPConn deps cfg pw cb lg") auto
  with assms have mem: "Lookup d \<in> set acts" by simp
  have ra: "resolveAddress deps cfg dmn = (x, acts0) \<Longrightarrow> Lookup d \<in> set acts0 \<Longrightarrow>
        d = dmn \<and> \<not> (Server cfg \<noteq> [] \<and> 0 < Port cfg) \<and> Proxies cfg = []" for dmn x acts0
    by (auto simp: resolveAddress_def split: if_splits sum.splits prod.splits)
  from NewXMPPConn_cases [OF run] mem show ?thesis
  proof (elim conjE disjE exE)
    assume "acts = []" with mem show ?thesis by simp
  next
    fix e assume "CHR ''@'' \<in> set (Account cfg)"
      "resolveAddress deps cfg (tl (dropWhile (\<lambda>x. x \<noteq> CHR ''@'') (Account cfg))) = (Inl e, acts)"
    with ra mem show ?thesis by blast
  next
    fix addr tr e
    assume "CHR ''@'' \<in> set (Account cfg)"
      "resolveAddress deps cfg (tl (dropWhile (\<lambda>x. x \<noteq> CHR ''@'') (Account cfg))) = (Inr (addr, tr), acts)"
    with ra mem show ?thesis by blast
  next
    fix addr tr dialer e
    assume "CHR ''@'' \<in> set (Account cfg)"
      "resolveAddress deps cfg (tl (dropWhile (\<lambda>x. x \<noteq> CHR ''@'') (Account cfg))) = (Inr (addr, tr), acts)"
    with ra mem show ?thesis by blast
  next
    fix addr tr dialer pin acts0 acts1
    assume at: "CHR ''@'' \<in> set (Account cfg)"
      and r0: "resolveAddress deps cfg (tl (dropWhile (\<lambda>x. x \<noteq> CHR ''@'') (Account cfg))) = (Inr (addr, tr), acts0)"
      and co: "connect deps dialer addr (takeWhile (\<lambda>x. x \<noteq> CHR ''@'') (Account cfg))
               (tl (dropWhile (\<lambda>x. x \<noteq> CHR ''@'') (Account cfg))) pw
               (overrideRoots deps (tl (dropWhile (\<lambda>x. x \<noteq> CHR ''@'') (Account cfg))) (newXMPPConfig lg cb tr pin))
              = (r, acts1)"
      and ac: "acts = acts0 @ acts1"
    from connect_actions [OF co] have "Lookup d \<notin> set acts1" by auto
    with mem ac have "Lookup d \<in> set acts0" by simp
    with ra [OF r0] at show ?thesis by blast
  qed
qed

text \<open>
  Claim C1. The address is decided in three steps, the first that applies. With a
  server and a positive port in the record the address is that server and port, trusted,
  and nothing is looked up. Otherwise, with a proxy in the record, the function fails
  with the error of the proxy without a server, and as a whole it returns that error
  without having done anything. Otherwise the domain of the account is looked up: a
  failure is returned as the error of the resolution, a success gives the host and port
  found, not trusted. In \<^verbatim>\<open>NewXMPPConn\<close> a lookup is made only in the third case and
  only for the domain of the account, and the address and the flag given to the protocol
  layer are those decided here.
\<close>

theorem address_resolver_decision_order:
  "(Server cfg \<noteq> [] \<and> 0 < Port cfg \<longrightarrow>
      resolveAddress deps cfg dmn = (Inr (Server cfg @ '':'' @ Itoa (Port cfg), True), []))
   \<and> (\<not> (Server cfg \<noteq> [] \<and> 0 < Port cfg) \<and> Proxies cfg \<noteq> [] \<longrightarrow>
      resolveAddress deps cfg dmn = (Inl ProxyWithoutServer, []))
   \<and> (\<not> (Server cfg \<noteq> [] \<and> 0 < Port cfg) \<and> Proxies cfg = [] \<longrightarrow>
      resolveAddress deps cfg dmn =
        (case Resolve deps dmn of
           Inl e \<Rightarrow> (Inl (ResolveFailed e), [Lookup dmn])
         | Inr (host, port) \<Rightarrow> (Inr (host @ '':'' @ Itoa (uint port), False), [Lookup dmn])))
   \<and> (CHR ''@'' \<in> set (Account cfg) \<and> \<not> (Server cfg \<noteq> [] \<and> 0 < Port cfg) \<and> Proxies cfg \<noteq> [] \<longrightarrow>
      NewXMPPConn deps cfg pw cb lg = (Inl ProxyWithoutServer, cfg, []))
   \<and> (\<forall>d. Lookup d \<in> set (snd (snd (NewXMPPConn deps cfg pw cb lg))) \<longrightarrow>
          d = tl (dropWhile (\<lambda>x. x \<noteq> CHR ''@'') (Account cfg))
          \<and> \<not> (Server cfg \<noteq> [] \<and> 0 < Port cfg) \<and> Proxies cfg = [])
   \<and> (\<forall>a u d p xc. XMPPDial a u d p xc \<in> set (snd (snd (NewXMPPConn deps cfg pw cb lg))) \<longrightarrow>
          (\<exists>acts. resolveAddress deps cfg (tl (dropWhile (\<lambda>x. x \<noteq> CHR ''@'') (Account cfg)))
                    = (Inr (a, TrustedAddress xc), acts)))"
proof -
  have 1: "Server cfg \<noteq> [] \<and> 0 < Port cfg \<longrightarrow>
      resolveAddress deps cfg dmn = (Inr (Server cfg @ '':'' @ Itoa (Port cfg), True), [])"
    by (simp add: resolveAddress_def hostPort_def)
  have 2: "\<not> (Server cfg \<noteq> [] \<and> 0 < Port cfg) \<and> Proxies cfg \<noteq> [] \<longrightarrow>
      resolveAddress deps cfg dmn = (Inl ProxyWithoutServer, [])"
    by (auto simp add: resolveAddress_def)
  have 3: "\<not> (Server cfg \<noteq> [] \<and> 0 < Port cfg) \<and> Proxies cfg = [] \<longrightarrow>
      resolveAddress deps cfg dmn =
        (case Resolve deps dmn of
           Inl e \<Rightarrow> (Inl (ResolveFailed e), [Lookup dmn])
         | Inr (host, port) \<Rightarrow> (Inr (host @ '':'' @ Itoa (uint port), False), [Lookup dmn]))"
    by (auto simp add: resolveAddress_def hostPort_def split: sum.splits)
  have 4: "CHR ''@'' \<in> set (Account cfg) \<and> \<not> (Server cfg \<noteq> [] \<and> 0 < Port cfg) \<and> Proxies cfg \<noteq> [] \<longrightarrow>
      NewXMPPConn deps cfg pw cb lg = (Inl ProxyWithoutServer, cfg, [])"
    by (auto simp add: NewXMPPConn_def Let_def SplitN2_def resolveAddress_def)
  have 5: "\<forall>d. Lookup d \<in> set (snd (snd (NewXMPPConn deps cfg pw cb lg))) \<longrightarrow>
          d = tl (dropWhile (\<lambda>x. x \<noteq> CHR ''@'') (Account cfg))
          \<and> \<not> (Server cfg \<noteq> [] \<and> 0 < Port cfg) \<and> Proxies cfg = []"
    using NewXMPPConn_Lookup [of _ deps cfg pw cb lg] by blast
  have 6: "\<forall>a u d p xc. XMPPDial a u d p xc \<in> set (snd (snd (NewXMPPConn deps cfg pw cb lg))) \<longrightarrow>
          (\<exists>acts. resolveAddress deps cfg (tl (dropWhile (\<lambda>x. x \<noteq> CHR ''@'') (Account cfg)))
                    = (Inr (a, TrustedAddress xc), acts))"
  proof (intro allI impI)
    fix a u d p xc
    assume "XMPPDial a u d p xc \<in> set (snd (snd (NewXMPPConn deps cfg pw cb lg)))"
    from NewXMPPConn_XMPPDial [OF this]
    show "\<exists>acts. resolveAddress deps cfg (tl (dropWhile (\<lambda>x. x \<noteq> CHR ''@'') (Account cfg)))
                    = (Inr (a, TrustedAddress xc), acts)"
      by (auto simp: overrideRoots_fields newXMPPConfig_def)
  qed
  from 1 2 3 4 5 6 show ?thesis by (intro conjI)
qed

text \<open>Claim C1 at four records, one for each outcome.\<close>

theorem address_resolver_decision_order_witness:
  "resolveAddress exampleConnDeps
      (emptyConfig \<lparr> Account := ''a@example.com'', Server := ''xmpp.example.com'', Port := 5222,
                     Proxies := [''socks5://127.0.0.1:9050''] \<rparr>) ''example.com''
     = (Inr (''xmpp.example.com:5222'', True), [])
   \<and> NewXMPPConn exampleConnDeps
        (emptyConfig \<lparr> Account := ''a@example.com'', Proxies := [''socks5://127.0.0.1:9050''] \<rparr>)
        ''secret'' () ()
     = (Inl ProxyWithoutServer,
        emptyConfig \<lparr> Account := ''a@example.com'', Proxies := [''socks5://127.0.0.1:9050''] \<rparr>, [])
   \<and> resolveAddress exampleConnDeps (emptyConfig \<lparr> Account := ''a@example.com'' \<rparr>) ''example.com''
     = (Inr (''xmpp.example.com:5269'', False), [Lookup ''example.com''])
   \<and> resolveAddress exampleConnDeps (emptyConfig \<lparr> Account := ''a@nowhere.org'' \<rparr>) ''nowhere.org''
     = (Inl (ResolveFailed ''no such host''), [Lookup ''nowhere.org''])"
  using address_resolver_decision_order [where deps = exampleConnDeps and dmn = "''example.com''"
          and pw = "''secret''" and cb = "()" and lg = "()"
          and cfg = "emptyConfig \<lparr> Account := ''a@example.com'', Server := ''xmpp.example.com'',
                                   Port := 5222, Proxies := [''socks5://127.0.0.1:9050''] \<rparr>"]
        address_resolver_decision_order [where deps = exampleConnDeps and dmn = "''example.com''"
          and pw = "''secret''" and cb = "()" and lg = "()"
          and cfg = "emptyConfig \<lparr> Account := ''a@example.com'',
                                   Proxies := [''socks5://127.0.0.1:9050''] \<rparr>"]
        address_resolver_decision_order [where deps = exampleConnDeps and dmn = "''example.com''"
          and pw = "''secret''" and cb = "()" and lg = "()"
          and cfg = "emptyConfig \<lparr> Account := ''a@example.com'' \<rparr>"]
        address_resolver_decision_order [where deps = exampleConnDeps and dmn = "''nowhere.org''"
          and pw = "''secret''" and cb = "()" and lg = "()"
          and cfg = "emptyConfig \<lparr> Account := ''a@nowhere.org'' \<rparr>"]
  by (simp add: emptyConfig_def exampleConnDeps_def Itoa_def digitsOf.simps)

subsection \<open>The record is only read\<close>

text \<open>
  Claim C10. Whatever \<^verbatim>\<open>NewXMPPConn\<close> returns, a session or an error, the record it
  was given is the record it leaves: equal in every field.
\<close>

theorem NewXMPPConn_leaves_config:
  "fst (snd (NewXMPPConn deps cfg pw cb lg)) = cfg"
proof -
  obtain r cfg' acts where run: "NewXMPPConn deps cfg pw cb lg = (r, cfg', acts)"
    by (cases "NewXMPPConn deps cfg pw cb lg") auto
  from NewXMPPConn_cases [OF run] have "cfg' = cfg" by blast
  with run show ?thesis by simp
qed

text \<open>Claim C10 at a call that fails and at a call that returns a session.\<close>

theorem NewXMPPConn_leaves_config_witness:
  "fst (snd (NewXMPPConn exampleConnDeps
        (emptyConfig \<lparr> Account := ''a@example.com'', Server := ''xmpp.example.com'', Port := 5222,
                       Proxies := [''socks5://127.0.0.1:9050''],
                       ServerCertificateSHA256 := ''zz'' \<rparr>) ''secret'' () ()))
   = emptyConfig \<lparr> Account := ''a@example.com'', Server := ''xmpp.example.com'', Port := 5222,
                   Proxies := [''socks5://127.0.0.1:9050''], ServerCertificateSHA256 := ''zz'' \<rparr>
   \<and> fst (snd (NewXMPPConn exampleConnDeps (emptyConfig \<lparr> Account := ''a@example.com'' \<rparr>)
         ''secret'' () ()))
   = emptyConfig \<lparr> Account := ''a@example.com'' \<rparr>"
  using NewXMPPConn_leaves_config [where deps = exampleConnDeps and pw = "''secret''" and cb = "()"
          and lg = "()"
          and cfg = "emptyConfig \<lparr> Account := ''a@example.com'', Server := ''xmpp.example.com'',
                                   Port := 5222, Proxies := [''socks5://127.0.0.1:9050''],
                                   ServerCertificateSHA256 := ''zz'' \<rparr>"]
        NewXMPPConn_leaves_config [where deps = exampleConnDeps and pw = "''secret''" and cb = "()"
          and lg = "()" and cfg = "emptyConfig \<lparr> Account := ''a@example.com'' \<rparr>"]
  by simp

subsection \<open>The transport opened through the proxies\<close>

lemma NewXMPPConn_no_Close:
  "Close c \<notin> set (snd (snd (NewXMPPConn deps cfg pw cb lg)))"
proof
  assume mem0: "Close c \<in> set (snd (snd (NewXMPPConn deps cfg pw cb lg)))"
  obtain r cfg' acts where run: "NewXMPPConn deps cfg pw cb lg = (r, cfg', acts)"
    by (cases "NewXMPPConn deps cfg pw cb lg") auto
  with mem0 have mem: "Close c \<in> set acts" by simp
  from NewXMPPConn_cases [OF run] mem show False
    by (elim conjE disjE exE) (auto dest!: resolveAddress_actions connect_actions)
qed

text \<open>
  Claim C9, as the specification has it: when the transport was opened through the
  dialer and the protocol layer then fails, the connection is closed before the error is
  returned. Here the dialer returns the connection 3, the protocol layer refuses the
  password, the error comes back, and closing the connection is not among the actions.
\<close>

theorem transport_not_closed_counterexample:
  "fst (NewXMPPConn exampleConnDeps
          (emptyConfig \<lparr> Account := ''a@example.com'', Server := ''xmpp.example.com'', Port := 5222,
                         Proxies := [''socks5://127.0.0.1:9050''] \<rparr>) ''wrong'' () ())
     = Inl (XMPPConnectFailed ''authentication failed'')
   \<and> Dial exampleConnDeps [''socks5://127.0.0.1:9050''] ''tcp'' ''xmpp.example.com:5222'' = Inr 3
   \<and> DialerDial [''socks5://127.0.0.1:9050''] ''tcp'' ''xmpp.example.com:5222''
       \<in> set (snd (snd (NewXMPPConn exampleConnDeps
          (emptyConfig \<lparr> Account := ''a@example.com'', Server := ''xmpp.example.com'', Port := 5222,
                         Proxies := [''socks5://127.0.0.1:9050''] \<rparr>) ''wrong'' () ())))
   \<and> Close 3
       \<notin> set (snd (snd (NewXMPPConn exampleConnDeps
          (emptyConfig \<lparr> Account := ''a@example.com'', Server := ''xmpp.example.com'', Port := 5222,
                         Proxies := [''socks5://127.0.0.1:9050''] \<rparr>) ''wrong'' () ())))"
  by (simp add: NewXMPPConn_def Let_def SplitN2_def resolveAddress_def buildDialer_def
      decodePin_def connect_def overrideRoots_def newXMPPConfig_def hostPort_def Itoa_def
      digitsOf.simps exampleConnDeps_def emptyConfig_def)

lemma connect_after_Dial:
  assumes "connect deps dialer addr user dmn pw xc = (r, acts)"
    and "DialerDial d n a \<in> set acts" and "Dial deps d n a = Inr c"
  shows "acts = [DialerDial d n a, XMPPDial a user dmn pw (xc \<lparr> Conn := Some c \<rparr>)]
       \<and> r = (case xmppDial deps a user dmn pw (xc \<lparr> Conn := Some c \<rparr>) of
                Inl m \<Rightarrow> Inl (XMPPConnectFailed m) | Inr s \<Rightarrow> Inr s)"
  using assms by (auto simp: connect_def Let_def split: option.splits sum.splits)

text \<open>
  Claim C9, amended. \<^verbatim>\<open>NewXMPPConn\<close> never closes a connection. Once the dialer has
  returned the transport, the one thing that follows is the call of the protocol layer
  with that transport in its policy, and what the protocol layer returns is returned:
  its session, or its error wrapped. The transport is handed over at the call, whether
  the call succeeds or not.
\<close>

theorem transport_never_closed:
  "(\<forall>c. Close c \<notin> set (snd (snd (NewXMPPConn deps cfg pw cb lg))))
   \<and> (\<forall>d n a c. DialerDial d n a \<in> set (snd (snd (NewXMPPConn deps cfg pw cb lg)))
                 \<and> Dial deps d n a = Inr c \<longrightarrow>
         (\<exists>u dm xc. snd (snd (NewXMPPConn deps cfg pw cb lg))
                       = [DialerDial d n a, XMPPDial a u dm pw xc]
                   \<and> Conn xc = Some c
                   \<and> fst (NewXMPPConn deps cfg pw cb lg)
                       = (case xmppDial deps a u dm pw xc of
                            Inl m \<Rightarrow> Inl (XMPPConnectFailed m) | Inr s \<Rightarrow> Inr s)))"
proof (intro conjI allI impI)
  fix c show "Close c \<notin> set (snd (snd (NewXMPPConn deps cfg pw cb lg)))"
    by (rule NewXMPPConn_no_Close)
next
  fix d n a c
  assume h: "DialerDial d n a \<in> set (snd (snd (NewXMPPConn deps cfg pw cb lg)))
             \<and> Dial deps d n a = Inr c"
  obtain r cfg' acts where run: "NewXMPPConn deps cfg pw cb lg = (r, cfg', acts)"
    by (cases "NewXMPPConn deps cfg pw cb lg") auto
  with h have mem: "DialerDial d n a \<in> set acts" and dial: "Dial deps d n a = Inr c" by simp_all
  have "\<exists>u dm xc. acts = [DialerDial d n a, XMPPDial a u dm pw xc] \<and> Conn xc = Some c
          \<and> r = (case xmppDial deps a u dm pw xc of
                   Inl m \<Rightarrow> Inl (XMPPConnectFailed m) | Inr s \<Rightarrow> Inr s)"
    using NewXMPPConn_cases [OF run] mem
  proof (elim conjE disjE exE)
    assume "acts = []" with mem show ?thesis by simp
  next
    fix e assume "resolveAddress deps cfg (tl (dropWhile (\<lambda>x. x \<noteq> CHR ''@'') (Account cfg))) = (Inl e, acts)"
    from resolveAddress_actions [OF this] mem show ?thesis by auto
  next
    fix addr tr e
    assume "resolveAddress deps cfg (tl (dropWhile (\<lambda>x. x \<noteq> CHR ''@'') (Account cfg))) = (Inr (addr, tr), acts)"
    from resolveAddress_actions [OF this] mem show ?thesis by auto
  next
    fix addr tr dialer e
    assume "resolveAddress deps cfg (tl (dropWhile (\<lambda>x. x \<noteq> CHR ''@'') (Account cfg))) = (Inr (addr, tr), acts)"
    from resolveAddress_actions [OF this] mem show ?thesis by auto
  next
    fix addr tr dialer pin acts0 acts1
    assume ra: "resolveAddress deps cfg (tl (dropWhile (\<lambda>x. x \<noteq> CHR ''@'') (Account cfg))) = (Inr (addr, tr), acts0)"
      and bd: "buildDialer deps (Proxies cfg) = Inr dialer"
      and co: "connect deps dialer addr (takeWhile (\<lambda>x. x \<noteq> CHR ''@'') (Account cfg))
               (tl (dropWhile (\<lambda>x. x \<noteq> CHR ''@'') (Account cfg))) pw
               (overrideRoots deps (tl (dropWhile (\<lambda>x. x \<noteq> CHR ''@'') (Account cfg))) (newXMPPConfig lg cb tr pin))
              = (r, acts1)"
      and ac: "acts = acts0 @ acts1"
    have a0: "acts0 = []"
    proof (rule ccontr)
      assume "acts0 \<noteq> []"
      with ra have "Proxies cfg = []"
        by (auto simp: resolveAddress_def split: if_splits sum.splits prod.splits)
      with bd have "dialer = None" by (simp add: buildDialer_def)
      with connect_actions [OF co] have "\<forall>x\<in>set acts1. \<exists>a u d p xc. x = XMPPDial a u d p xc" by auto
      moreover from resolveAddress_actions [OF ra] have "\<forall>x\<in>set acts0. \<exists>d. x = Lookup d" by auto
      ultimately show False using mem ac by auto
    qed
    with mem ac have m1: "DialerDial d n a \<in> set acts1" by simp
    from connect_after_Dial [OF co m1 dial] a0 ac show ?thesis by auto
  qed
  with run show "\<exists>u dm xc. snd (snd (NewXMPPConn deps cfg pw cb lg))
                       = [DialerDial d n a, XMPPDial a u dm pw xc]
                   \<and> Conn xc = Some c
                   \<and> fst (NewXMPPConn deps cfg pw cb lg)
                       = (case xmppDial deps a u dm pw xc of
                            Inl m \<Rightarrow> Inl (XMPPConnectFailed m) | Inr s \<Rightarrow> Inr s)"
    by simp
qed

text \<open>The amended claim C9 at the call where the protocol layer refuses the password.\<close>

theorem transport_never_closed_witness:
  "DialerDial [''socks5://127.0.0.1:9050''] ''tcp'' ''xmpp.example.com:5222''
       \<in> set (snd (snd (NewXMPPConn exampleConnDeps
          (emptyConfig \<lparr> Account := ''a@example.com'', Server := ''xmpp.example.com'', Port := 5222,
                         Proxies := [''socks5://127.0.0.1:9050''] \<rparr>) ''wrong'' () ())))
   \<and> Dial exampleConnDeps [''socks5://127.0.0.1:9050''] ''tcp'' ''xmpp.example.com:5222'' = Inr 3
   \<and> Close 3
       \<notin> set (snd (snd (NewXMPPConn exampleConnDeps
          (emptyConfig \<lparr> Account := ''a@example.com'', Server := ''xmpp.example.com'', Port := 5222,
                         Proxies := [''socks5://127.0.0.1:9050''] \<rparr>) ''wrong'' () ())))
   \<and> length (snd (snd (NewXMPPConn exampleConnDeps
          (emptyConfig \<lparr> Account := ''a@example.com'', Server := ''xmpp.example.com'', Port := 5222,
                         Proxies := [''socks5://127.0.0.1:9050''] \<rparr>) ''wrong'' () ()))) = 2"
proof -
  let ?cfg = "emptyConfig \<lparr> Account := ''a@example.com'', Server := ''xmpp.example.com'', Port := 5222,
                         Proxies := [''socks5://127.0.0.1:9050''] \<rparr>"
  let ?run = "NewXMPPConn exampleConnDeps ?cfg ''wrong'' () ()"
  have mem: "DialerDial [''socks5://127.0.0.1:9050''] ''tcp'' ''xmpp.example.com:5222''
       \<in> set (snd (snd ?run))"
    by (simp add: NewXMPPConn_def Let_def SplitN2_def resolveAddress_def buildDialer_def
      decodePin_def connect_def overrideRoots_def newXMPPConfig_def hostPort_def Itoa_def
      digitsOf.simps exampleConnDeps_def emptyConfig_def)
  have dial: "Dial exampleConnDeps [''socks5://127.0.0.1:9050''] ''tcp'' ''xmpp.example.com:5222'' = Inr 3"
    by (simp add: exampleConnDeps_def)
  from transport_never_closed [where deps = exampleConnDeps and cfg = ?cfg and pw = "''wrong''"
      and cb = "()" and lg = "()"]
  have nc: "Close 3 \<notin> set (snd (snd ?run))"
    and after: "\<exists>u dm xc. snd (snd ?run)
        = [DialerDial [''socks5://127.0.0.1:9050''] ''tcp'' ''xmpp.example.com:5222'',
           XMPPDial ''xmpp.example.com:5222'' u dm ''wrong'' xc]"
    using mem dial by blast+
  from after have "length (snd (snd ?run)) = 2" by auto
  with mem dial nc show ?thesis by simp
qed

subsection \<open>The root pool of one domain\<close>

text \<open>
  Claim C8. For the domain \<^verbatim>\<open>jabber.ccc.de\<close> the root pool of the policy becomes the
  pool of the one embedded certificate when the embedded bytes parse; when they do not
  parse the policy is left as it was, with no pool of its own and no error; for any other
  domain the policy is left as it was. Every policy that \<^verbatim>\<open>NewXMPPConn\<close> hands to the
  protocol layer has the pool so decided, for the domain of the account.
\<close>

theorem ccc_root_override:
  "(dmn = ''jabber.ccc.de'' \<and> ParseCertificate deps caCertRootDER = Inr cert \<longrightarrow>
      overrideRoots deps dmn base = base \<lparr> TLSConfig := (TLSConfig base) \<lparr> RootCAs := Some [cert] \<rparr> \<rparr>)
   \<and> (dmn = ''jabber.ccc.de'' \<and> ParseCertificate deps caCertRootDER = Inl e \<longrightarrow>
      overrideRoots deps dmn base = base)
   \<and> (dmn \<noteq> ''jabber.ccc.de'' \<longrightarrow> overrideRoots deps dmn base = base)
   \<and> (\<forall>a u d p xc. XMPPDial a u d p xc \<in> set (snd (snd (NewXMPPConn deps cfg pw cb lg))) \<longrightarrow>
         d = tl (dropWhile (\<lambda>x. x \<noteq> CHR ''@'') (Account cfg))
         \<and> RootCAs (TLSConfig xc) =
             (if d = ''jabber.ccc.de''
              then (case ParseCertificate deps caCertRootDER of
                      Inr caCertRoot \<Rightarrow> Some [caCertRoot] | Inl e \<Rightarrow> None)
              else None))"
proof -
  have 1: "dmn = ''jabber.ccc.de'' \<and> ParseCertificate deps caCertRootDER = Inr cert \<longrightarrow>
      overrideRoots deps dmn base = base \<lparr> TLSConfig := (TLSConfig base) \<lparr> RootCAs := Some [cert] \<rparr> \<rparr>"
    by (simp add: overrideRoots_def)
  have 2: "dmn = ''jabber.ccc.de'' \<and> ParseCertificate deps caCertRootDER = Inl e \<longrightarrow>
      overrideRoots deps dmn base = base"
    by (simp add: overrideRoots_def)
  have 3: "dmn \<noteq> ''jabber.ccc.de'' \<longrightarrow> overrideRoots deps dmn base = base"
    by (simp add: overrideRoots_def)
  have roots: "RootCAs (TLSConfig (overrideRoots deps d (newXMPPConfig lg cb tr pin))) =
             (if d = ''jabber.ccc.de''
              then (case ParseCertificate deps caCertRootDER of
                      Inr caCertRoot \<Rightarrow> Some [caCertRoot] | Inl e \<Rightarrow> None)
              else None)" for d tr pin
    by (simp add: overrideRoots_def newXMPPConfig_def split: sum.splits)
  have 4: "\<forall>a u d p xc. XMPPDial a u d p xc \<in> set (snd (snd (NewXMPPConn deps cfg pw cb lg))) \<longrightarrow>
         d = tl (dropWhile (\<lambda>x. x \<noteq> CHR ''@'') (Account cfg))
         \<and> RootCAs (TLSConfig xc) =
             (if d = ''jabber.ccc.de''
              then (case ParseCertificate deps caCertRootDER of
                      Inr caCertRoot \<Rightarrow> Some [caCertRoot] | Inl e \<Rightarrow> None)
              else None)"
  proof (intro allI impI)
    fix a u d p xc
    assume "XMPPDial a u d p xc \<in> set (snd (snd (NewXMPPConn deps cfg pw cb lg)))"
    from NewXMPPConn_XMPPDial [OF this]
    obtain tr pin where d: "d = tl (dropWhile (\<lambda>x. x \<noteq> CHR ''@'') (Account cfg))"
      and xc: "xc = overrideRoots deps d (newXMPPConfig lg cb tr pin)
             \<or> (\<exists>c. xc = (overrideRoots deps d (newXMPPConfig lg cb tr pin)) \<lparr> Conn := Some c \<rparr>)"
      by blast
    from xc have "RootCAs (TLSConfig xc)
        = RootCAs (TLSConfig (overrideRoots deps d (newXMPPConfig lg cb tr pin)))"
      by auto
    with d roots [of d tr pin]
    show "d = tl (dropWhile (\<lambda>x. x \<noteq> CHR ''@'') (Account cfg))
         \<and> RootCAs (TLSConfig xc) =
             (if d = ''jabber.ccc.de''
              then (case ParseCertificate deps caCertRootDER of
                      Inr caCertRoot \<Rightarrow> Some [caCertRoot] | Inl e \<Rightarrow> None)
              else None)"
      by simp
  qed
  from 1 2 3 4 show ?thesis by (intro conjI)
qed

text \<open>
  Claim C8 with a parser that accepts the bytes, with one that refuses them, and at
  another domain.
\<close>

theorem ccc_root_override_witness:
  "ParseCertificate exampleConnDeps caCertRootDER = Inr caCertRootDER
   \<and> RootCAs (TLSConfig (overrideRoots exampleConnDeps ''jabber.ccc.de''
        (newXMPPConfig () () False None :: (unit, unit, byte list, nat) xmppConfig)))
       = Some [caCertRootDER]
   \<and> ParseCertificate (exampleConnDeps \<lparr> ParseCertificate := (\<lambda>der. Inl ''malformed certificate'') \<rparr>)
        caCertRootDER = Inl ''malformed certificate''
   \<and> overrideRoots (exampleConnDeps \<lparr> ParseCertificate := (\<lambda>der. Inl ''malformed certificate'') \<rparr>)
        ''jabber.ccc.de'' (newXMPPConfig () () False None)
       = (newXMPPConfig () () False None :: (unit, unit, byte list, nat) xmppConfig)
   \<and> ''example.com'' \<noteq> ''jabber.ccc.de''
   \<and> overrideRoots exampleConnDeps ''example.com'' (newXMPPConfig () () False None)
       = (newXMPPConfig () () False None :: (unit, unit, byte list, nat) xmppConfig)"
  using ccc_root_override [where deps = exampleConnDeps and dmn = "''jabber.ccc.de''"
          and cert = caCertRootDER
          and base = "newXMPPConfig () () False None :: (unit, unit, byte list, nat) xmppConfig"
          and cfg = emptyConfig and pw = "[]" and cb = "()" and lg = "()"]
        ccc_root_override [where deps = "exampleConnDeps \<lparr> ParseCertificate := (\<lambda>der. Inl ''malformed certificate'') \<rparr>"
          and dmn = "''jabber.ccc.de''" and e = "''malformed certificate''"
          and base = "newXMPPConfig () () False None :: (unit, unit, byte list, nat) xmppConfig"
          and cfg = emptyConfig and pw = "[]" and cb = "()" and lg = "()"]
        ccc_root_override [where deps = exampleConnDeps and dmn = "''example.com''"
          and base = "newXMPPConfig () () False None :: (unit, unit, byte list, nat) xmppConfig"
          and cfg = emptyConfig and pw = "[]" and cb = "()" and lg = "()"]
  by (simp add: exampleConnDeps_def)

subsection \<open>The pin\<close>

lemma DecodeString_hex:
  "\<forall>c\<in>set s. fromHexChar c \<noteq> None \<Longrightarrow> even (length s) \<Longrightarrow>
     \<exists>bs. DecodeString s = Inr bs \<and> 2 * length bs = length s"
proof (induction s rule: DecodeString.induct)
  case 1
  then show ?case by simp
next
  case (2 p)
  then show ?case by simp
next
  case (3 p q rest)
  from "3.prems" obtain a b where a: "fromHexChar p = Some a" and b: "fromHexChar q = Some b"
    by auto
  from "3.prems" have "\<forall>c\<in>set rest. fromHexChar c \<noteq> None" and "even (length rest)"
    by simp_all
  with "3.IH" [OF a b] obtain bs where "DecodeString rest = Inr bs" and "2 * length bs = length rest"
    by blast
  with a b show ?case by simp
qed

lemma DecodeString_Inr:
  "DecodeString s = Inr bs \<Longrightarrow> length s = 2 * length bs \<and> (\<forall>c\<in>set s. fromHexChar c \<noteq> None)"
proof (induction s arbitrary: bs rule: DecodeString.induct)
  case 1
  then show ?case by simp
next
  case (2 p)
  then show ?case by (simp split: option.splits)
next
  case (3 p q rest)
  then show ?case by (auto split: option.splits sum.splits)
qed

lemma NewXMPPConn_bad_pin:
  assumes "decodePin (ServerCertificateSHA256 cfg) = Inl e"
  shows "(\<exists>e'. fst (NewXMPPConn deps cfg pw cb lg) = Inl e')
       \<and> (\<forall>x\<in>set (snd (snd (NewXMPPConn deps cfg pw cb lg))). \<exists>d. x = Lookup d)"
proof -
  obtain r cfg' acts where run: "NewXMPPConn deps cfg pw cb lg = (r, cfg', acts)"
    by (cases "NewXMPPConn deps cfg pw cb lg") auto
  from NewXMPPConn_cases [OF run] assms
  have "(\<exists>e'. r = Inl e') \<and> (\<forall>x\<in>set acts. \<exists>d. x = Lookup d)"
    by (elim conjE disjE exE) (auto dest!: resolveAddress_actions)
  with run show ?thesis by simp
qed

text \<open>
  Claim C4. An empty pin gives no pin and no error. A pin that is not empty is decoded
  from hexadecimal: a failure of the decoding is an error, a decoded length other than
  32 bytes is an error, and otherwise the decoded bytes are the pin. A pin of 64
  hexadecimal digits always decodes to 32 bytes, and only such a pin is accepted. When
  the pin is in error \<^verbatim>\<open>NewXMPPConn\<close> returns an error and has called neither a dialer
  nor the protocol layer; every policy it hands to the protocol layer carries the bytes
  decoded from the pin of the record, unchanged.
\<close>

theorem pin_decoding:
  "(pin = [] \<longrightarrow> decodePin pin = Inr None)
   \<and> (pin \<noteq> [] \<longrightarrow>
        decodePin pin =
          (case DecodeString pin of
             Inl e \<Rightarrow> Inl (PinNotHex e)
           | Inr bs \<Rightarrow> if length bs = 32 then Inr (Some bs) else Inl PinNot32Bytes))
   \<and> (length pin = 64 \<and> (\<forall>c\<in>set pin. fromHexChar c \<noteq> None) \<longrightarrow>
        (\<exists>bs. length bs = 32 \<and> DecodeString pin = Inr bs \<and> decodePin pin = Inr (Some bs)))
   \<and> (\<forall>bs. decodePin pin = Inr (Some bs) \<longrightarrow>
        DecodeString pin = Inr bs \<and> length bs = 32 \<and> length pin = 64
        \<and> (\<forall>c\<in>set pin. fromHexChar c \<noteq> None))
   \<and> (\<forall>e. decodePin (ServerCertificateSHA256 cfg) = Inl e \<longrightarrow>
        (\<exists>e'. fst (NewXMPPConn deps cfg pw cb lg) = Inl e')
        \<and> (\<forall>x\<in>set (snd (snd (NewXMPPConn deps cfg pw cb lg))). \<exists>d. x = Lookup d))
   \<and> (\<forall>a u d p xc. XMPPDial a u d p xc \<in> set (snd (snd (NewXMPPConn deps cfg pw cb lg))) \<longrightarrow>
        decodePin (ServerCertificateSHA256 cfg) = Inr (CertSHA256 xc))"
proof -
  have 1: "pin = [] \<longrightarrow> decodePin pin = Inr None"
    by (simp add: decodePin_def)
  have 2: "pin \<noteq> [] \<longrightarrow>
        decodePin pin =
          (case DecodeString pin of
             Inl e \<Rightarrow> Inl (PinNotHex e)
           | Inr bs \<Rightarrow> if length bs = 32 then Inr (Some bs) else Inl PinNot32Bytes)"
    by (simp add: decodePin_def split: sum.splits)
  have 3: "length pin = 64 \<and> (\<forall>c\<in>set pin. fromHexChar c \<noteq> None) \<longrightarrow>
        (\<exists>bs. length bs = 32 \<and> DecodeString pin = Inr bs \<and> decodePin pin = Inr (Some bs))"
  proof
    assume h: "length pin = 64 \<and> (\<forall>c\<in>set pin. fromHexChar c \<noteq> None)"
    then have "even (length pin)" by simp
    with h DecodeString_hex [of pin] obtain bs
      where bs: "DecodeString pin = Inr bs" "2 * length bs = length pin" by blast
    with h have len: "length bs = 32" by simp
    from h have "pin \<noteq> []" by auto
    with bs len have "decodePin pin = Inr (Some bs)" by (simp add: decodePin_def)
    with bs len show "\<exists>bs. length bs = 32 \<and> DecodeString pin = Inr bs \<and> decodePin pin = Inr (Some bs)"
      by blast
  qed
  have 4: "\<forall>bs. decodePin pin = Inr (Some bs) \<longrightarrow>
        DecodeString pin = Inr bs \<and> length bs = 32 \<and> length pin = 64
        \<and> (\<forall>c\<in>set pin. fromHexChar c \<noteq> None)"
  proof (intro allI impI)
    fix bs assume "decodePin pin = Inr (Some bs)"
    then have d: "DecodeString pin = Inr bs" and l: "length bs = 32"
      by (auto simp: decodePin_def split: if_splits sum.splits)
    from DecodeString_Inr [OF d] l
    show "DecodeString pin = Inr bs \<and> length bs = 32 \<and> length pin = 64
        \<and> (\<forall>c\<in>set pin. fromHexChar c \<noteq> None)"
      using d by simp
  qed
  have 5: "\<forall>e. decodePin (ServerCertificateSHA256 cfg) = Inl e \<longrightarrow>
        (\<exists>e'. fst (NewXMPPConn deps cfg pw cb lg) = Inl e')
        \<and> (\<forall>x\<in>set (snd (snd (NewXMPPConn deps cfg pw cb lg))). \<exists>d. x = Lookup d)"
    using NewXMPPConn_bad_pin [of cfg _ deps pw cb lg] by blast
  have 6: "\<forall>a u d p xc. XMPPDial a u d p xc \<in> set (snd (snd (NewXMPPConn deps cfg pw cb lg))) \<longrightarrow>
        decodePin (ServerCertificateSHA256 cfg) = Inr (CertSHA256 xc)"
  proof (intro allI impI)
    fix a u d p xc
    assume "XMPPDial a u d p xc \<in> set (snd (snd (NewXMPPConn deps cfg pw cb lg)))"
    from NewXMPPConn_XMPPDial [OF this]
    show "decodePin (ServerCertificateSHA256 cfg) = Inr (CertSHA256 xc)"
      by (auto simp: overrideRoots_fields newXMPPConfig_def)
  qed
  from 1 2 3 4 5 6 show ?thesis by (intro conjI)
qed

text \<open>
  Claim C4 at the empty pin, at three pins in error, and at a pin of 64 digits in both
  cases of the letters.
\<close>

theorem pin_decoding_witness:
  "decodePin [] = Inr None
   \<and> decodePin ''zz'' = Inl (PinNotHex (InvalidByteError CHR ''z''))
   \<and> decodePin ''abc'' = Inl (PinNotHex ErrLength)
   \<and> decodePin ''00ff'' = Inl PinNot32Bytes
   \<and> length ''000102030405060708090a0b0c0d0e0f101112131415161718191A1B1C1D1E1F'' = 64
   \<and> decodePin ''000102030405060708090a0b0c0d0e0f101112131415161718191A1B1C1D1E1F''
       = Inr (Some [0, 1, 2, 3, 4, 5, 6, 7, 8, 9, 10, 11, 12, 13, 14, 15,
                    16, 17, 18, 19, 20, 21, 22, 23, 24, 25, 26, 27, 28, 29, 30, 31])
   \<and> fst (NewXMPPConn exampleConnDeps
            (emptyConfig \<lparr> Account := ''a@example.com'', ServerCertificateSHA256 := ''zz'' \<rparr>)
            ''secret'' () ())
       = Inl (PinNotHex (InvalidByteError CHR ''z''))"
proof -
  let ?pin = "''000102030405060708090a0b0c0d0e0f101112131415161718191A1B1C1D1E1F''"
  let ?cfg = "emptyConfig \<lparr> Account := ''a@example.com'', ServerCertificateSHA256 := ''zz'' \<rparr>"
  note w = pin_decoding [where deps = exampleConnDeps and cfg = ?cfg and pw = "''secret''"
      and cb = "()" and lg = "()"]
  have d1: "DecodeString ''zz'' = Inl (InvalidByteError CHR ''z'')"
    and d2: "DecodeString ''abc'' = Inl ErrLength"
    and d3: "DecodeString ''00ff'' = Inr [0, 255]"
    by (simp_all add: fromHexChar_def)
  have d4: "DecodeString ?pin = Inr [0, 1, 2, 3, 4, 5, 6, 7, 8, 9, 10, 11, 12, 13, 14, 15,
                    16, 17, 18, 19, 20, 21, 22, 23, 24, 25, 26, 27, 28, 29, 30, 31]"
    by (simp add: fromHexChar_def)
  have a: "decodePin [] = Inr None"
    using w [where pin = "[]", THEN conjunct1] by simp
  have b: "decodePin ''zz'' = Inl (PinNotHex (InvalidByteError CHR ''z''))"
    using w [where pin = "''zz''", THEN conjunct2, THEN conjunct1] d1 by simp
  have c: "decodePin ''abc'' = Inl (PinNotHex ErrLength)"
    using w [where pin = "''abc''", THEN conjunct2, THEN conjunct1] d2 by simp
  have d: "decodePin ''00ff'' = Inl PinNot32Bytes"
    using w [where pin = "''00ff''", THEN conjunct2, THEN conjunct1] d3 by simp
  have e: "decodePin ?pin = Inr (Some [0, 1, 2, 3, 4, 5, 6, 7, 8, 9, 10, 11, 12, 13, 14, 15,
                    16, 17, 18, 19, 20, 21, 22, 23, 24, 25, 26, 27, 28, 29, 30, 31])"
    using w [where pin = ?pin, THEN conjunct2, THEN conjunct1] d4 by simp
  have f: "fst (NewXMPPConn exampleConnDeps ?cfg ''secret'' () ())
       = Inl (PinNotHex (InvalidByteError CHR ''z''))"
    by (simp add: NewXMPPConn_def Let_def SplitN2_def resolveAddress_def buildDialer_def
      decodePin_def fromHexChar_def exampleConnDeps_def emptyConfig_def)
  from a b c d e f show ?thesis by simp
qed

subsection \<open>The chain of proxies\<close>

lemma specChain_snoc:
  "specChain deps (xs @ [x]) =
     (case urlParse deps x of
        Inl e \<Rightarrow> Inl (ProxyURLInvalid x e)
      | Inr u \<Rightarrow>
          (case FromURL deps u (Direct deps) of
             Inl e \<Rightarrow> Inl (ProxyInvalid x e)
           | Inr d \<Rightarrow> specChain (deps \<lparr> Direct := d \<rparr>) xs))"
proof (induction xs)
  case Nil
  then show ?case by (simp split: sum.splits)
next
  case (Cons a xs)
  then show ?case by (simp split: sum.splits)
qed

lemma dialerLoop_Some:
  "k \<le> length ps \<Longrightarrow>
     dialerLoop deps ps k (Some d) = map_sum id Some (specChain (deps \<lparr> Direct := d \<rparr>) (take k ps))"
proof (induction k arbitrary: d)
  case 0
  then show ?case by simp
next
  case (Suc k)
  then have k: "k < length ps" "k \<le> length ps" by simp_all
  show ?case
    using Suc.IH [OF k(2)] k(1)
    by (simp add: take_Suc_conv_app_nth specChain_snoc split: sum.splits)
qed

lemma dialerLoop_None:
  "0 < k \<Longrightarrow> k \<le> length ps \<Longrightarrow>
     dialerLoop deps ps k None = map_sum id Some (specChain deps (take k ps))"
proof (cases k)
  case 0
  assume "0 < k" with 0 show ?thesis by simp
next
  case (Suc j)
  assume "k \<le> length ps"
  with Suc have j: "j < length ps" "j \<le> length ps" by simp_all
  show ?thesis
    using dialerLoop_Some [OF j(2), of deps] j(1) Suc
    by (simp add: take_Suc_conv_app_nth specChain_snoc split: sum.splits)
qed

lemma buildDialer_specChain:
  "ps \<noteq> [] \<Longrightarrow> buildDialer deps ps = map_sum id Some (specChain deps ps)"
  using dialerLoop_None [of "length ps" ps deps] by (simp add: buildDialer_def)

lemma specChain_error:
  "specChain deps ps = Inl e \<Longrightarrow>
     \<exists>i<length ps. \<exists>fwd. specChain deps (drop (Suc i) ps) = Inr fwd
        \<and> ((\<exists>m. urlParse deps (ps ! i) = Inl m \<and> e = ProxyURLInvalid (ps ! i) m)
           \<or> (\<exists>u m. urlParse deps (ps ! i) = Inr u \<and> FromURL deps u fwd = Inl m
                  \<and> e = ProxyInvalid (ps ! i) m))"
proof (induction ps)
  case Nil
  then show ?case by simp
next
  case (Cons p ps)
  show ?case
  proof (cases "specChain deps ps")
    case (Inl e')
    with Cons.prems have "e' = e" by simp
    with Inl Cons.IH obtain i fwd where "i < length ps"
      "specChain deps (drop (Suc i) ps) = Inr fwd"
      "(\<exists>m. urlParse deps (ps ! i) = Inl m \<and> e = ProxyURLInvalid (ps ! i) m)
           \<or> (\<exists>u m. urlParse deps (ps ! i) = Inr u \<and> FromURL deps u fwd = Inl m
                  \<and> e = ProxyInvalid (ps ! i) m)"
      by blast
    then show ?thesis by (intro exI [of _ "Suc i"]) auto
  next
    case (Inr fwd)
    with Cons.prems show ?thesis
      by (intro exI [of _ 0]) (auto split: sum.splits)
  qed
qed

lemma specChain_bad_entry:
  "i < length ps \<Longrightarrow>
   (case urlParse deps (ps ! i) of Inl m \<Rightarrow> True | Inr u \<Rightarrow> \<forall>fwd. \<exists>m. FromURL deps u fwd = Inl m) \<Longrightarrow>
   \<exists>e. specChain deps ps = Inl e"
proof (induction ps arbitrary: i)
  case Nil
  then show ?case by simp
next
  case (Cons p ps)
  show ?case
  proof (cases i)
    case 0
    with Cons.prems have bad: "case urlParse deps p of
        Inl m \<Rightarrow> True | Inr u \<Rightarrow> \<forall>fwd. \<exists>m. FromURL deps u fwd = Inl m"
      by simp
    show ?thesis
    proof (cases "specChain deps ps")
      case (Inl e)
      then show ?thesis by simp
    next
      case (Inr fwd)
      show ?thesis
      proof (cases "urlParse deps p")
        case (Inl m)
        with Inr show ?thesis by simp
      next
        case u: (Inr u)
        with bad obtain m where "FromURL deps u fwd = Inl m" by auto
        with Inr u show ?thesis by simp
      qed
    qed
  next
    case (Suc j)
    with Cons.prems Cons.IH [of j] show ?thesis by auto
  qed
qed

lemma specChain_fails_at:
  assumes "i < length ps" and "specChain deps (drop (Suc i) ps) = Inr fwd"
  shows "(\<forall>m. urlParse deps (ps ! i) = Inl m \<longrightarrow>
            specChain deps ps = Inl (ProxyURLInvalid (ps ! i) m))
       \<and> (\<forall>u m. urlParse deps (ps ! i) = Inr u \<and> FromURL deps u fwd = Inl m \<longrightarrow>
            specChain deps ps = Inl (ProxyInvalid (ps ! i) m))"
  using assms
proof (induction ps arbitrary: i)
  case Nil
  then show ?case by simp
next
  case (Cons p ps)
  show ?case
  proof (cases i)
    case 0
    with Cons.prems have "specChain deps ps = Inr fwd" by simp
    with 0 show ?thesis by simp
  next
    case (Suc j)
    with Cons.prems have j: "j < length ps" and ch: "specChain deps (drop (Suc j) ps) = Inr fwd"
      by simp_all
    from Cons.IH [OF j ch] Suc show ?thesis by auto
  qed
qed

lemma NewXMPPConn_DialerDial:
  assumes "DialerDial d n a \<in> set (snd (snd (NewXMPPConn deps cfg pw cb lg)))"
  shows "buildDialer deps (Proxies cfg) = Inr (Some d) \<and> n = ''tcp''"
proof -
  obtain r cfg' acts where run: "NewXMPPConn deps cfg pw cb lg = (r, cfg', acts)"
    by (cases "NewXMPPConn deps cfg pw cb lg") auto
  with assms have mem: "DialerDial d n a \<in> set acts" by simp
  from NewXMPPConn_cases [OF run] mem show ?thesis
  proof (elim conjE disjE exE)
    assume "acts = []" with mem show ?thesis by simp
  next
    fix e assume "resolveAddress deps cfg (tl (dropWhile (\<lambda>x. x \<noteq> CHR ''@'') (Account cfg))) = (Inl e, acts)"
    from resolveAddress_actions [OF this] mem show ?thesis by auto
  next
    fix addr tr e
    assume "resolveAddress deps cfg (tl (dropWhile (\<lambda>x. x \<noteq> CHR ''@'') (Account cfg))) = (Inr (addr, tr), acts)"
    from resolveAddress_actions [OF this] mem show ?thesis by auto
  next
    fix addr tr dialer e
    assume "resolveAddress deps cfg (tl (dropWhile (\<lambda>x. x \<noteq> CHR ''@'') (Account cfg))) = (Inr (addr, tr), acts)"
    from resolveAddress_actions [OF this] mem show ?thesis by auto
  next
    fix addr tr dialer pin acts0 acts1
    assume ra: "resolveAddress deps cfg (tl (dropWhile (\<lambda>x. x \<noteq> CHR ''@'') (Account cfg))) = (Inr (addr, tr), acts0)"
      and bd: "buildDialer deps (Proxies cfg) = Inr dialer"
      and co: "connect deps dialer addr (takeWhile (\<lambda>x. x \<noteq> CHR ''@'') (Account cfg))
               (tl (dropWhile (\<lambda>x. x \<noteq> CHR ''@'') (Account cfg))) pw
               (overrideRoots deps (tl (dropWhile (\<lambda>x. x \<noteq> CHR ''@'') (Account cfg))) (newXMPPConfig lg cb tr pin))
              = (r, acts1)"
      and ac: "acts = acts0 @ acts1"
    from resolveAddress_actions [OF ra] mem ac have "DialerDial d n a \<in> set acts1" by auto
    with connect_actions [OF co] bd show ?thesis by auto
  qed
qed

lemma NewXMPPConn_no_proxies:
  assumes "Proxies cfg = []"
  shows "(\<forall>d n a. DialerDial d n a \<notin> set (snd (snd (NewXMPPConn deps cfg pw cb lg))))
       \<and> (\<forall>a u d p xc. XMPPDial a u d p xc \<in> set (snd (snd (NewXMPPConn deps cfg pw cb lg)))
             \<longrightarrow> Conn xc = None)"
proof (intro conjI allI impI)
  fix d n a
  show "DialerDial d n a \<notin> set (snd (snd (NewXMPPConn deps cfg pw cb lg)))"
  proof
    assume "DialerDial d n a \<in> set (snd (snd (NewXMPPConn deps cfg pw cb lg)))"
    from NewXMPPConn_DialerDial [OF this] assms show False
      by (simp add: buildDialer_def)
  qed
next
  fix a u d p xc
  assume "XMPPDial a u d p xc \<in> set (snd (snd (NewXMPPConn deps cfg pw cb lg)))"
  from NewXMPPConn_XMPPDial [OF this] assms show "Conn xc = None"
    by (auto simp: buildDialer_def overrideRoots_fields newXMPPConfig_def)
qed

text \<open>
  Claim C3, as the specification has it: a malformed address or an unsupported proxy
  at any entry makes the construction fail with an error naming that entry. With two
  bad entries the error names only the later one. Here the first entry does not parse
  and the second has a scheme that makes no proxy: the error names the second, not the
  first. The same with two entries that both make no proxy.
\<close>

theorem bad_entry_named_counterexample:
  "urlParse exampleConnDeps ''socks5://bad host:1080'' = Inl ''invalid character in host name''
   \<and> buildDialer exampleConnDeps [''socks5://bad host:1080'', ''http://10.0.0.2:8080'']
       = Inl (ProxyInvalid ''http://10.0.0.2:8080'' ''unknown scheme'')
   \<and> buildDialer exampleConnDeps [''socks5://bad host:1080'', ''http://10.0.0.2:8080'']
       \<noteq> Inl (ProxyURLInvalid ''socks5://bad host:1080'' ''invalid character in host name'')
   \<and> FromURL exampleConnDeps ''http://10.0.0.2:8080'' (Direct exampleConnDeps) = Inl ''unknown scheme''
   \<and> buildDialer exampleConnDeps [''http://10.0.0.2:8080'', ''ftp://10.0.0.3:21'']
       = Inl (ProxyInvalid ''ftp://10.0.0.3:21'' ''unknown scheme'')
   \<and> buildDialer exampleConnDeps [''http://10.0.0.2:8080'', ''ftp://10.0.0.3:21'']
       \<noteq> Inl (ProxyInvalid ''http://10.0.0.2:8080'' ''unknown scheme'')"
  by (simp add: buildDialer_def exampleConnDeps_def eval_nat_numeral)

text \<open>
  Claim C3, amended. With the nil dialer read as the direct dialer, as the loop and the
  test before the dial read it, the loop computes for every list what the
  specification's rule computes: the direct dialer wrapped with the entries from the
  last to the first. For the empty list that is the direct dialer, held as nil, with no
  error. So the first entry is the outermost wrapper, around the chain of the entries
  after it, and the last entry is wrapped around the direct dialer before any other.
  The error of a failed construction names the bad entry of the highest index: when the
  entries after an entry make a chain and the entry does not parse, or cannot wrap that
  chain, the construction fails with the error of that entry, and every failure is of
  this form. An entry that does not parse, or that makes no proxy whatever it is to
  wrap, makes the construction fail. In \<^verbatim>\<open>NewXMPPConn\<close> the dialer that opens the
  transport is the one built from the proxies of the record, and with no proxies no
  transport is opened and the protocol layer is called without one.
\<close>

theorem proxy_chain_order:
  "map_sum id (\<lambda>r. case r of None \<Rightarrow> Direct deps | Some d \<Rightarrow> d) (buildDialer deps ps)
     = specChain deps ps
   \<and> buildDialer deps [] = Inr None
   \<and> (ps \<noteq> [] \<longrightarrow> buildDialer deps ps = map_sum id Some (specChain deps ps))
   \<and> (\<forall>fwd u d. specChain deps ps = Inr fwd \<and> urlParse deps p = Inr u \<and> FromURL deps u fwd = Inr d
         \<longrightarrow> buildDialer deps (p # ps) = Inr (Some d))
   \<and> (\<forall>u d. urlParse deps q = Inr u \<and> FromURL deps u (Direct deps) = Inr d
         \<longrightarrow> buildDialer deps (ps @ [q]) = map_sum id Some (specChain (deps \<lparr> Direct := d \<rparr>) ps))
   \<and> (\<forall>i fwd. i < length ps \<and> specChain deps (drop (Suc i) ps) = Inr fwd \<longrightarrow>
         (\<forall>m. urlParse deps (ps ! i) = Inl m \<longrightarrow>
              buildDialer deps ps = Inl (ProxyURLInvalid (ps ! i) m))
         \<and> (\<forall>u m. urlParse deps (ps ! i) = Inr u \<and> FromURL deps u fwd = Inl m \<longrightarrow>
              buildDialer deps ps = Inl (ProxyInvalid (ps ! i) m)))
   \<and> (\<forall>e. buildDialer deps ps = Inl e \<longrightarrow>
         (\<exists>i<length ps. \<exists>fwd. specChain deps (drop (Suc i) ps) = Inr fwd
            \<and> ((\<exists>m. urlParse deps (ps ! i) = Inl m \<and> e = ProxyURLInvalid (ps ! i) m)
               \<or> (\<exists>u m. urlParse deps (ps ! i) = Inr u \<and> FromURL deps u fwd = Inl m
                      \<and> e = ProxyInvalid (ps ! i) m))))
   \<and> (\<forall>i<length ps.
         (case urlParse deps (ps ! i) of
            Inl m \<Rightarrow> True
          | Inr u \<Rightarrow> \<forall>fwd. \<exists>m. FromURL deps u fwd = Inl m)
         \<longrightarrow> (\<exists>e. buildDialer deps ps = Inl e))
   \<and> (\<forall>d n a. DialerDial d n a \<in> set (snd (snd (NewXMPPConn deps cfg pw cb lg))) \<longrightarrow>
         buildDialer deps (Proxies cfg) = Inr (Some d) \<and> n = ''tcp'')
   \<and> (Proxies cfg = [] \<longrightarrow>
         (\<forall>d n a. DialerDial d n a \<notin> set (snd (snd (NewXMPPConn deps cfg pw cb lg))))
         \<and> (\<forall>a u d p xc. XMPPDial a u d p xc \<in> set (snd (snd (NewXMPPConn deps cfg pw cb lg)))
               \<longrightarrow> Conn xc = None))"
proof -
  have 1: "buildDialer deps [] = Inr None"
    by (simp add: buildDialer_def)
  have 0: "map_sum id (\<lambda>r. case r of None \<Rightarrow> Direct deps | Some d \<Rightarrow> d) (buildDialer deps ps)
     = specChain deps ps"
  proof (cases "ps = []")
    case True
    with 1 show ?thesis by simp
  next
    case False
    then show ?thesis
      by (cases "specChain deps ps") (simp_all add: buildDialer_specChain)
  qed
  have 2: "ps \<noteq> [] \<longrightarrow> buildDialer deps ps = map_sum id Some (specChain deps ps)"
    by (simp add: buildDialer_specChain)
  have 3: "\<forall>fwd u d. specChain deps ps = Inr fwd \<and> urlParse deps p = Inr u \<and> FromURL deps u fwd = Inr d
         \<longrightarrow> buildDialer deps (p # ps) = Inr (Some d)"
    by (simp add: buildDialer_specChain)
  have inner: "\<forall>u d. urlParse deps q = Inr u \<and> FromURL deps u (Direct deps) = Inr d
         \<longrightarrow> buildDialer deps (ps @ [q]) = map_sum id Some (specChain (deps \<lparr> Direct := d \<rparr>) ps)"
    by (simp add: buildDialer_specChain specChain_snoc)
  have named: "\<forall>i fwd. i < length ps \<and> specChain deps (drop (Suc i) ps) = Inr fwd \<longrightarrow>
         (\<forall>m. urlParse deps (ps ! i) = Inl m \<longrightarrow>
              buildDialer deps ps = Inl (ProxyURLInvalid (ps ! i) m))
         \<and> (\<forall>u m. urlParse deps (ps ! i) = Inr u \<and> FromURL deps u fwd = Inl m \<longrightarrow>
              buildDialer deps ps = Inl (ProxyInvalid (ps ! i) m))"
  proof (intro allI impI, elim conjE)
    fix i fwd
    assume i: "i < length ps" and ch: "specChain deps (drop (Suc i) ps) = Inr fwd"
    from i have ne: "ps \<noteq> []" by auto
    have lift: "specChain deps ps = Inl e \<Longrightarrow> buildDialer deps ps = Inl e" for e
      using ne by (simp add: buildDialer_specChain)
    from specChain_fails_at [OF i ch] lift
    show "(\<forall>m. urlParse deps (ps ! i) = Inl m \<longrightarrow>
              buildDialer deps ps = Inl (ProxyURLInvalid (ps ! i) m))
         \<and> (\<forall>u m. urlParse deps (ps ! i) = Inr u \<and> FromURL deps u fwd = Inl m \<longrightarrow>
              buildDialer deps ps = Inl (ProxyInvalid (ps ! i) m))"
      by blast
  qed
  have 4: "\<forall>e. buildDialer deps ps = Inl e \<longrightarrow>
         (\<exists>i<length ps. \<exists>fwd. specChain deps (drop (Suc i) ps) = Inr fwd
            \<and> ((\<exists>m. urlParse deps (ps ! i) = Inl m \<and> e = ProxyURLInvalid (ps ! i) m)
               \<or> (\<exists>u m. urlParse deps (ps ! i) = Inr u \<and> FromURL deps u fwd = Inl m
                      \<and> e = ProxyInvalid (ps ! i) m)))"
  proof (intro allI impI)
    fix e assume b: "buildDialer deps ps = Inl e"
    with 1 have ne: "ps \<noteq> []" by auto
    with b have "specChain deps ps = Inl e"
      by (cases "specChain deps ps") (simp_all add: buildDialer_specChain)
    then show "\<exists>i<length ps. \<exists>fwd. specChain deps (drop (Suc i) ps) = Inr fwd
            \<and> ((\<exists>m. urlParse deps (ps ! i) = Inl m \<and> e = ProxyURLInvalid (ps ! i) m)
               \<or> (\<exists>u m. urlParse deps (ps ! i) = Inr u \<and> FromURL deps u fwd = Inl m
                      \<and> e = ProxyInvalid (ps ! i) m))"
      by (rule specChain_error)
  qed
  have 5: "\<forall>i<length ps.
         (case urlParse deps (ps ! i) of
            Inl m \<Rightarrow> True
          | Inr u \<Rightarrow> \<forall>fwd. \<exists>m. FromURL deps u fwd = Inl m)
         \<longrightarrow> (\<exists>e. buildDialer deps ps = Inl e)"
  proof (intro allI impI)
    fix i assume i: "i < length ps"
      and bad: "case urlParse deps (ps ! i) of
            Inl m \<Rightarrow> True
          | Inr u \<Rightarrow> \<forall>fwd. \<exists>m. FromURL deps u fwd = Inl m"
    from i have ne: "ps \<noteq> []" by auto
    from specChain_bad_entry [OF i bad] obtain e where "specChain deps ps = Inl e" by blast
    with ne show "\<exists>e. buildDialer deps ps = Inl e"
      by (simp add: buildDialer_specChain)
  qed
  have 6: "\<forall>d n a. DialerDial d n a \<in> set (snd (snd (NewXMPPConn deps cfg pw cb lg))) \<longrightarrow>
         buildDialer deps (Proxies cfg) = Inr (Some d) \<and> n = ''tcp''"
    using NewXMPPConn_DialerDial [of _ _ _ deps cfg pw cb lg] by blast
  have 7: "Proxies cfg = [] \<longrightarrow>
         (\<forall>d n a. DialerDial d n a \<notin> set (snd (snd (NewXMPPConn deps cfg pw cb lg))))
         \<and> (\<forall>a u d p xc. XMPPDial a u d p xc \<in> set (snd (snd (NewXMPPConn deps cfg pw cb lg)))
               \<longrightarrow> Conn xc = None)"
    using NewXMPPConn_no_proxies [of cfg deps pw cb lg] by blast
  from 0 1 2 3 inner named 4 5 6 7 show ?thesis by (intro conjI)
qed

text \<open>
  The amended claim C3 at a list of two proxies, at a list of two bad entries, at a
  list whose first entry alone is bad, at the empty list, and at a record without
  proxies.
\<close>

theorem proxy_chain_order_witness:
  "buildDialer exampleConnDeps [''socks5://10.0.0.1:1080'', ''socks5://127.0.0.1:9050'']
     = Inr (Some [''socks5://10.0.0.1:1080'', ''socks5://127.0.0.1:9050''])
   \<and> specChain exampleConnDeps [''socks5://127.0.0.1:9050''] = Inr [''socks5://127.0.0.1:9050'']
   \<and> buildDialer exampleConnDeps [''socks5://bad host:1080'', ''http://10.0.0.2:8080'']
     = Inl (ProxyInvalid ''http://10.0.0.2:8080'' ''unknown scheme'')
   \<and> buildDialer exampleConnDeps [''socks5://bad host:1080'', ''socks5://127.0.0.1:9050'']
     = Inl (ProxyURLInvalid ''socks5://bad host:1080'' ''invalid character in host name'')
   \<and> map_sum id (\<lambda>r. case r of None \<Rightarrow> Direct exampleConnDeps | Some d \<Rightarrow> d)
        (buildDialer exampleConnDeps []) = Inr []
   \<and> Direct exampleConnDeps = []
   \<and> snd (snd (NewXMPPConn exampleConnDeps
        (emptyConfig \<lparr> Account := ''a@example.com'', Server := ''xmpp.example.com'', Port := 5222 \<rparr>)
        ''secret'' () ()))
      = [XMPPDial ''xmpp.example.com:5222'' ''a'' ''example.com'' ''secret''
           (newXMPPConfig () () True None)]
   \<and> Conn (newXMPPConfig () () True None :: (unit, unit, byte list, nat) xmppConfig) = None"
proof -
  let ?cfg = "emptyConfig \<lparr> Account := ''a@example.com'', Server := ''xmpp.example.com'', Port := 5222 \<rparr>"
  note w = proxy_chain_order [where deps = exampleConnDeps and cfg = ?cfg and pw = "''secret''"
      and cb = "()" and lg = "()"]
  have s1: "specChain exampleConnDeps [''socks5://127.0.0.1:9050''] = Inr [''socks5://127.0.0.1:9050'']"
    by (simp add: exampleConnDeps_def)
  have a: "buildDialer exampleConnDeps [''socks5://10.0.0.1:1080'', ''socks5://127.0.0.1:9050'']
     = Inr (Some [''socks5://10.0.0.1:1080'', ''socks5://127.0.0.1:9050''])"
    using w [where ps = "[''socks5://127.0.0.1:9050'']" and p = "''socks5://10.0.0.1:1080''",
        THEN conjunct2, THEN conjunct2, THEN conjunct2, THEN conjunct1] s1
    by (simp add: exampleConnDeps_def)
  have b: "buildDialer exampleConnDeps [''socks5://bad host:1080'', ''http://10.0.0.2:8080'']
     = Inl (ProxyInvalid ''http://10.0.0.2:8080'' ''unknown scheme'')"
    using w [where ps = "[''socks5://bad host:1080'', ''http://10.0.0.2:8080'']",
        THEN conjunct2, THEN conjunct2, THEN conjunct2, THEN conjunct2, THEN conjunct2,
        THEN conjunct1, rule_format, where i = 1 and fwd = "[]"]
    by (simp add: exampleConnDeps_def)
  have c: "buildDialer exampleConnDeps [''socks5://bad host:1080'', ''socks5://127.0.0.1:9050'']
     = Inl (ProxyURLInvalid ''socks5://bad host:1080'' ''invalid character in host name'')"
    using w [where ps = "[''socks5://bad host:1080'', ''socks5://127.0.0.1:9050'']",
        THEN conjunct2, THEN conjunct2, THEN conjunct2, THEN conjunct2, THEN conjunct2,
        THEN conjunct1, rule_format, where i = 0 and fwd = "[''socks5://127.0.0.1:9050'']"] s1
    by (simp add: exampleConnDeps_def)
  have d: "map_sum id (\<lambda>r. case r of None \<Rightarrow> Direct exampleConnDeps | Some d \<Rightarrow> d)
        (buildDialer exampleConnDeps []) = Inr []"
    using w [where ps = "[]", THEN conjunct1] by (simp add: exampleConnDeps_def)
  have e: "Direct exampleConnDeps = []"
    by (simp add: exampleConnDeps_def)
  have run: "snd (snd (NewXMPPConn exampleConnDeps ?cfg ''secret'' () ()))
      = [XMPPDial ''xmpp.example.com:5222'' ''a'' ''example.com'' ''secret''
           (newXMPPConfig () () True None)]"
    by (simp add: NewXMPPConn_def Let_def SplitN2_def resolveAddress_def buildDialer_def
      decodePin_def connect_def overrideRoots_def hostPort_def Itoa_def
      digitsOf.simps exampleConnDeps_def emptyConfig_def)
  have f: "Conn (newXMPPConfig () () True None :: (unit, unit, byte list, nat) xmppConfig) = None"
    using w [THEN conjunct2, THEN conjunct2, THEN conjunct2, THEN conjunct2, THEN conjunct2,
        THEN conjunct2, THEN conjunct2, THEN conjunct2, THEN conjunct2] run
    by (simp add: emptyConfig_def)
  from s1 a b c d e run f show ?thesis by simp
qed

subsection \<open>The wizard: hidden services\<close>

text \<open>
  Claim C5. Where the wizard comes to the table of the hidden services with Tor enabled
  and the domain of the account in the table, it sets the server to the hidden service
  of that domain, the port to 5222 and the proxies to the one local address of Tor, and
  returns true; after the message about the hidden service it sets only the final
  prompt and reads no further answer. A run of the whole wizard that gets there, the key
  read or generated, ends so. The table holds five domains. The run with the answers
  \<^verbatim>\<open>alice@riseup.net\<close>, \<^verbatim>\<open>n\<close>, \<^verbatim>\<open>y\<close> and the empty line, where \<^verbatim>\<open>y\<close> means yes, ends
  with the server \<^verbatim>\<open>4cjw6cwpeaeppfqz.onion\<close>, the port 5222 and that one proxy, all four
  answers read and no prompt for a proxy, a server or a port.
\<close>

theorem tor_shortcut:
  "(knownTorDomain dmn = Some hiddenService \<and> UseTor config \<longrightarrow>
      afterKey deps dmn priv config ins log =
        (True,
         config \<lparr> PrivateKey := Serialize deps priv, OTRAutoAppendTag := True,
                  OTRAutoStartSession := True, OTRAutoTearDown := False,
                  Server := hiddenService, Port := 5222,
                  Proxies := [''socks5://127.0.0.1:9050''] \<rparr>,
         ins,
         log @ [Info ''It appears that you are using a well known server and we will use its Tor hidden service to connect.'',
                SetPrompt ''> '']))
   \<and> (accountPrompt cfg answers [Warn ''Enrolling new config file''] = (Some dmn, ca, insa, loga)
       \<and> debugPrompt deps ca insa loga = (cb, insb, logb)
       \<and> torPrompt deps cb insb logb = (config, insc, logc)
       \<and> keyLoop deps (zeroKey deps) insc
            (logc @ [SetPrompt ''File to import libotr private key from (enter to generate): ''])
           = (Some priv, ins, log)
       \<and> knownTorDomain dmn = Some hiddenService \<and> UseTor config \<longrightarrow>
      enroll deps cfg answers =
        (True,
         config \<lparr> PrivateKey := Serialize deps priv, OTRAutoAppendTag := True,
                  OTRAutoStartSession := True, OTRAutoTearDown := False,
                  Server := hiddenService, Port := 5222,
                  Proxies := [''socks5://127.0.0.1:9050''] \<rparr>,
         ins,
         log @ [Info ''It appears that you are using a well known server and we will use its Tor hidden service to connect.'',
                SetPrompt ''> '']))
   \<and> (knownTorDomain dmn \<noteq> None \<longleftrightarrow>
        dmn \<in> {''jabber.ccc.de'', ''riseup.net'', ''jabber.calyxinstitute.org'', ''jabber.otr.im'',
               ''wtfismyip.com''})
   \<and> (ParseYes deps ''y'' \<longrightarrow>
        enroll deps emptyConfig
          [(''alice@riseup.net'', None), (''n'', None), (''y'', None), ([], None)] =
        (True,
         emptyConfig \<lparr> Account := ''alice@riseup.net'',
                       RawLogFile := (if ParseYes deps ''n'' then ''/tmp/xmpp-client-debug.log'' else []),
                       UseTor := True,
                       PrivateKey := Serialize deps (Generate deps (zeroKey deps)),
                       OTRAutoAppendTag := True, OTRAutoStartSession := True,
                       OTRAutoTearDown := False,
                       Server := ''4cjw6cwpeaeppfqz.onion'', Port := 5222,
                       Proxies := [''socks5://127.0.0.1:9050''] \<rparr>,
         [],
         [Warn ''Enrolling new config file'',
          SetPrompt ''Account (i.e. user@example.com, enter to quit): '',
          SetPrompt ''Enable debug logging to /tmp/xmpp-client-debug.log? '',
          Info (if ParseYes deps ''n'' then ''Debug logging enabled...''
                else ''Not enabling debug logging...''),
          SetPrompt ''Use Tor?: '',
          Info ''Using Tor...'',
          SetPrompt ''File to import libotr private key from (enter to generate): '',
          Info ''Generating private key...'',
          Info ''It appears that you are using a well known server and we will use its Tor hidden service to connect.'',
          SetPrompt ''> '']))"
proof -
  have 1: "knownTorDomain dmn = Some hiddenService \<and> UseTor config \<longrightarrow>
      afterKey deps dmn priv config ins log =
        (True,
         config \<lparr> PrivateKey := Serialize deps priv, OTRAutoAppendTag := True,
                  OTRAutoStartSession := True, OTRAutoTearDown := False,
                  Server := hiddenService, Port := 5222,
                  Proxies := [''socks5://127.0.0.1:9050''] \<rparr>,
         ins,
         log @ [Info ''It appears that you are using a well known server and we will use its Tor hidden service to connect.'',
                SetPrompt ''> ''])"
    by (simp add: afterKey_def Let_def)
  have 2: "accountPrompt cfg answers [Warn ''Enrolling new config file''] = (Some dmn, ca, insa, loga)
       \<and> debugPrompt deps ca insa loga = (cb, insb, logb)
       \<and> torPrompt deps cb insb logb = (config, insc, logc)
       \<and> keyLoop deps (zeroKey deps) insc
            (logc @ [SetPrompt ''File to import libotr private key from (enter to generate): ''])
           = (Some priv, ins, log)
       \<and> knownTorDomain dmn = Some hiddenService \<and> UseTor config \<longrightarrow>
      enroll deps cfg answers =
        (True,
         config \<lparr> PrivateKey := Serialize deps priv, OTRAutoAppendTag := True,
                  OTRAutoStartSession := True, OTRAutoTearDown := False,
                  Server := hiddenService, Port := 5222,
                  Proxies := [''socks5://127.0.0.1:9050''] \<rparr>,
         ins,
         log @ [Info ''It appears that you are using a well known server and we will use its Tor hidden service to connect.'',
                SetPrompt ''> ''])"
    using 1 by (simp add: enroll_def Let_def)
  have 3: "knownTorDomain dmn \<noteq> None \<longleftrightarrow>
        dmn \<in> {''jabber.ccc.de'', ''riseup.net'', ''jabber.calyxinstitute.org'', ''jabber.otr.im'',
               ''wtfismyip.com''}"
    by (simp add: knownTorDomain_def)
  have 4: "ParseYes deps ''y'' \<longrightarrow>
        enroll deps emptyConfig
          [(''alice@riseup.net'', None), (''n'', None), (''y'', None), ([], None)] =
        (True,
         emptyConfig \<lparr> Account := ''alice@riseup.net'',
                       RawLogFile := (if ParseYes deps ''n'' then ''/tmp/xmpp-client-debug.log'' else []),
                       UseTor := True,
                       PrivateKey := Serialize deps (Generate deps (zeroKey deps)),
                       OTRAutoAppendTag := True, OTRAutoStartSession := True,
                       OTRAutoTearDown := False,
                       Server := ''4cjw6cwpeaeppfqz.onion'', Port := 5222,
                       Proxies := [''socks5://127.0.0.1:9050''] \<rparr>,
         [],
         [Warn ''Enrolling new config file'',
          SetPrompt ''Account (i.e. user@example.com, enter to quit): '',
          SetPrompt ''Enable debug logging to /tmp/xmpp-client-debug.log? '',
          Info (if ParseYes deps ''n'' then ''Debug logging enabled...''
                else ''Not enabling debug logging...''),
          SetPrompt ''Use Tor?: '',
          Info ''Using Tor...'',
          SetPrompt ''File to import libotr private key from (enter to generate): '',
          Info ''Generating private key...'',
          Info ''It appears that you are using a well known server and we will use its Tor hidden service to connect.'',
          SetPrompt ''> ''])"
    by (simp add: enroll_def debugPrompt_def torPrompt_def ReadLine_def afterKey_def
        knownTorDomain_def SplitN2_def Let_def emptyConfig_def)
  from 1 2 3 4 show ?thesis by (intro conjI)
qed

text \<open>
  Claim C5 with collaborators for which \<^verbatim>\<open>y\<close> means yes: the run of the four answers,
  and the step itself with an answer waiting that stays unread.
\<close>

theorem tor_shortcut_witness:
  "ParseYes exampleWizardDeps ''y''
   \<and> enroll exampleWizardDeps emptyConfig
        [(''alice@riseup.net'', None), (''n'', None), (''y'', None), ([], None)] =
        (True,
         emptyConfig \<lparr> Account := ''alice@riseup.net'', UseTor := True,
                       PrivateKey := [1, 2, 3],
                       OTRAutoAppendTag := True, OTRAutoStartSession := True,
                       Server := ''4cjw6cwpeaeppfqz.onion'', Port := 5222,
                       Proxies := [''socks5://127.0.0.1:9050''] \<rparr>,
         [],
         [Warn ''Enrolling new config file'',
          SetPrompt ''Account (i.e. user@example.com, enter to quit): '',
          SetPrompt ''Enable debug logging to /tmp/xmpp-client-debug.log? '',
          Info ''Not enabling debug logging...'',
          SetPrompt ''Use Tor?: '',
          Info ''Using Tor...'',
          SetPrompt ''File to import libotr private key from (enter to generate): '',
          Info ''Generating private key...'',
          Info ''It appears that you are using a well known server and we will use its Tor hidden service to connect.'',
          SetPrompt ''> ''])
   \<and> knownTorDomain ''riseup.net'' = Some ''4cjw6cwpeaeppfqz.onion''
   \<and> afterKey exampleWizardDeps ''riseup.net'' [7] (emptyConfig \<lparr> UseTor := True \<rparr>)
        [(''unread'', None)] []
      = (True,
         emptyConfig \<lparr> UseTor := True, PrivateKey := [7], OTRAutoAppendTag := True,
                       OTRAutoStartSession := True,
                       Server := ''4cjw6cwpeaeppfqz.onion'', Port := 5222,
                       Proxies := [''socks5://127.0.0.1:9050''] \<rparr>,
         [(''unread'', None)],
         [Info ''It appears that you are using a well known server and we will use its Tor hidden service to connect.'',
          SetPrompt ''> ''])"
proof -
  have y: "ParseYes exampleWizardDeps ''y''" and n: "\<not> ParseYes exampleWizardDeps ''n''"
    by (simp_all add: exampleWizardDeps_def)
  have k: "knownTorDomain ''riseup.net'' = Some ''4cjw6cwpeaeppfqz.onion''"
    by (simp add: knownTorDomain_def)
  note t = tor_shortcut [where deps = exampleWizardDeps and dmn = "''riseup.net''"
      and hiddenService = "''4cjw6cwpeaeppfqz.onion''" and priv = "[7]"
      and config = "emptyConfig \<lparr> UseTor := True \<rparr>" and ins = "[(''unread'', None)]"
      and log = "[]"]
  have a: "enroll exampleWizardDeps emptyConfig
        [(''alice@riseup.net'', None), (''n'', None), (''y'', None), ([], None)] =
        (True,
         emptyConfig \<lparr> Account := ''alice@riseup.net'', UseTor := True,
                       PrivateKey := [1, 2, 3],
                       OTRAutoAppendTag := True, OTRAutoStartSession := True,
                       Server := ''4cjw6cwpeaeppfqz.onion'', Port := 5222,
                       Proxies := [''socks5://127.0.0.1:9050''] \<rparr>,
         [],
         [Warn ''Enrolling new config file'',
          SetPrompt ''Account (i.e. user@example.com, enter to quit): '',
          SetPrompt ''Enable debug logging to /tmp/xmpp-client-debug.log? '',
          Info ''Not enabling debug logging...'',
          SetPrompt ''Use Tor?: '',
          Info ''Using Tor...'',
          SetPrompt ''File to import libotr private key from (enter to generate): '',
          Info ''Generating private key...'',
          Info ''It appears that you are using a well known server and we will use its Tor hidden service to connect.'',
          SetPrompt ''> ''])"
    using t [THEN conjunct2, THEN conjunct2, THEN conjunct2] y n
    by (simp add: exampleWizardDeps_def emptyConfig_def)
  have b: "afterKey exampleWizardDeps ''riseup.net'' [7] (emptyConfig \<lparr> UseTor := True \<rparr>)
        [(''unread'', None)] []
      = (True,
         emptyConfig \<lparr> UseTor := True, PrivateKey := [7], OTRAutoAppendTag := True,
                       OTRAutoStartSession := True,
                       Server := ''4cjw6cwpeaeppfqz.onion'', Port := 5222,
                       Proxies := [''socks5://127.0.0.1:9050''] \<rparr>,
         [(''unread'', None)],
         [Info ''It appears that you are using a well known server and we will use its Tor hidden service to connect.'',
          SetPrompt ''> ''])"
    using t [THEN conjunct1] k by (simp add: exampleWizardDeps_def emptyConfig_def)
  from y a k b show ?thesis by simp
qed

subsection \<open>The wizard: the proxy, the server and the port\<close>

lemma portLoop_Proxies:
  "portLoop deps config ins log = (ok, config', ins', log') \<Longrightarrow> Proxies config' = Proxies config"
proof (induction ins arbitrary: config log)
  case Nil
  then show ?case by simp
next
  case (Cons r ins)
  obtain line err where r: "r = (line, err)" by (cases r)
  show ?case
  proof (cases "err \<noteq> None")
    case True
    with Cons.prems r show ?thesis by (auto simp: Let_def)
  next
    case False
    obtain port perr where a: "Atoi deps (if length line = 0 then ''5222'' else line) = (port, perr)"
      by (cases "Atoi deps (if length line = 0 then ''5222'' else line)")
    show ?thesis
    proof (cases "perr \<noteq> None \<or> port \<le> 0 \<or> port > 65535")
      case True
      with Cons.prems r False a
      have "portLoop deps (config \<lparr> Port := port \<rparr>) ins
              (log @ [SetPrompt ''Port (enter for 5222): '',
                      Info ''Port numbers must be 0 < port <= 65535'']) = (ok, config', ins', log')"
        by (auto simp: Let_def)
      from Cons.IH [OF this] show ?thesis by simp
    next
      case ok: False
      with Cons.prems r False a show ?thesis by (auto simp: Let_def)
    qed
  qed
qed

lemma serverPrompt_Proxies:
  "serverPrompt deps dmn proxyStr config ins log = (ok, config', ins', log') \<Longrightarrow>
     Proxies config' = [proxyStr]"
  by (auto simp: serverPrompt_def Let_def ReadLine_def
      split: list.splits prod.splits if_splits sum.splits dest!: portLoop_Proxies)

lemma proxyLoop_tor_nonempty:
  "proxyLoop deps True ins log = (Some s, ins', log') \<Longrightarrow> s \<noteq> []"
proof (induction ins arbitrary: log)
  case Nil
  then show ?case by simp
next
  case (Cons r ins)
  obtain line err where r: "r = (line, err)" by (cases r)
  with Cons show ?case
    by (auto simp: Let_def split: if_splits sum.splits)
qed

text \<open>
  Claim C6. At the prompt for the proxy, with Tor disabled the empty answer ends the
  wizard with true: the record is left as it was, with no proxy, and no server or port
  is asked. With Tor enabled the empty answer is the same as the answer
  \<^verbatim>\<open>socks5://127.0.0.1:9050\<close>, for the loop and for all that follows it, and the loop
  never ends with an empty proxy. An answer that is not empty and does not parse as an
  address, or makes no proxy, is followed by a message and the next answer is read; one
  that passes both ends the loop. The proxy the loop ends with, when it is not empty, is
  the one entry of the proxies in the record the wizard leaves.
\<close>

theorem proxy_prompt_empty_answer:
  "(\<not> UseTor config \<longrightarrow>
      proxyPrompt deps dmn config (([], None) # ins) log =
        (True, config, ins,
         log @ [SetPrompt ''Proxy (i.e socks5://127.0.0.1:9050, enter for none): '',
                SetPrompt ''> '']))
   \<and> proxyLoop deps True (([], None) # ins) log
       = proxyLoop deps True ((''socks5://127.0.0.1:9050'', None) # ins) log
   \<and> (UseTor config \<longrightarrow>
      proxyPrompt deps dmn config (([], None) # ins) log
       = proxyPrompt deps dmn config ((''socks5://127.0.0.1:9050'', None) # ins) log)
   \<and> (\<forall>s ins' log'. proxyLoop deps True ins log = (Some s, ins', log') \<longrightarrow> s \<noteq> [])
   \<and> (\<forall>m. s \<noteq> [] \<and> urlParse deps s = Inl m \<longrightarrow>
        proxyLoop deps useTor ((s, None) # ins) log =
          proxyLoop deps useTor ins (log @ [Alert (''Failed to parse '' @ s @ '' as a URL: '' @ m)]))
   \<and> (\<forall>u m. s \<noteq> [] \<and> urlParse deps s = Inr u \<and> FromURL deps u (Direct deps) = Inl m \<longrightarrow>
        proxyLoop deps useTor ((s, None) # ins) log =
          proxyLoop deps useTor ins (log @ [Alert (''Failed to parse '' @ s @ '' as a proxy: '' @ m)]))
   \<and> (\<forall>u d. s \<noteq> [] \<and> urlParse deps s = Inr u \<and> FromURL deps u (Direct deps) = Inr d \<longrightarrow>
        proxyLoop deps useTor ((s, None) # ins) log = (Some s, ins, log))
   \<and> (\<forall>p insa loga ok config' ins' log'.
        proxyLoop deps (UseTor config) answers
          (log @ [SetPrompt (''Proxy (i.e socks5://127.0.0.1:9050''
                             @ (if UseTor config then '', which is the default'' else '', enter for none'')
                             @ ''): '')]) = (Some p, insa, loga)
        \<and> p \<noteq> []
        \<and> proxyPrompt deps dmn config answers log = (ok, config', ins', log')
        \<longrightarrow> Proxies config' = [p])"
proof -
  have 1: "\<not> UseTor config \<longrightarrow>
      proxyPrompt deps dmn config (([], None) # ins) log =
        (True, config, ins,
         log @ [SetPrompt ''Proxy (i.e socks5://127.0.0.1:9050, enter for none): '',
                SetPrompt ''> ''])"
    by (simp add: proxyPrompt_def Let_def)
  have 2: "proxyLoop deps True (([], None) # ins) log
       = proxyLoop deps True ((''socks5://127.0.0.1:9050'', None) # ins) log"
    by (simp add: Let_def)
  have 3: "UseTor config \<longrightarrow>
      proxyPrompt deps dmn config (([], None) # ins) log
       = proxyPrompt deps dmn config ((''socks5://127.0.0.1:9050'', None) # ins) log"
    unfolding proxyPrompt_def Let_def using 2 by simp
  have 4: "\<forall>s ins' log'. proxyLoop deps True ins log = (Some s, ins', log') \<longrightarrow> s \<noteq> []"
    using proxyLoop_tor_nonempty by blast
  have 5: "\<forall>m. s \<noteq> [] \<and> urlParse deps s = Inl m \<longrightarrow>
        proxyLoop deps useTor ((s, None) # ins) log =
          proxyLoop deps useTor ins (log @ [Alert (''Failed to parse '' @ s @ '' as a URL: '' @ m)])"
    by (simp add: Let_def)
  have 6: "\<forall>u m. s \<noteq> [] \<and> urlParse deps s = Inr u \<and> FromURL deps u (Direct deps) = Inl m \<longrightarrow>
        proxyLoop deps useTor ((s, None) # ins) log =
          proxyLoop deps useTor ins (log @ [Alert (''Failed to parse '' @ s @ '' as a proxy: '' @ m)])"
    by (simp add: Let_def)
  have 7: "\<forall>u d. s \<noteq> [] \<and> urlParse deps s = Inr u \<and> FromURL deps u (Direct deps) = Inr d \<longrightarrow>
        proxyLoop deps useTor ((s, None) # ins) log = (Some s, ins, log)"
    by (simp add: Let_def)
  have 8: "\<forall>p insa loga ok config' ins' log'.
        proxyLoop deps (UseTor config) answers
          (log @ [SetPrompt (''Proxy (i.e socks5://127.0.0.1:9050''
                             @ (if UseTor config then '', which is the default'' else '', enter for none'')
                             @ ''): '')]) = (Some p, insa, loga)
        \<and> p \<noteq> []
        \<and> proxyPrompt deps dmn config answers log = (ok, config', ins', log')
        \<longrightarrow> Proxies config' = [p]"
  proof (intro allI impI, elim conjE)
    fix p insa loga ok config' ins' log'
    assume pl: "proxyLoop deps (UseTor config) answers
          (log @ [SetPrompt (''Proxy (i.e socks5://127.0.0.1:9050''
                             @ (if UseTor config then '', which is the default'' else '', enter for none'')
                             @ ''): '')]) = (Some p, insa, loga)"
      and ne: "p \<noteq> []"
      and pp: "proxyPrompt deps dmn config answers log = (ok, config', ins', log')"
    obtain ok2 c2 i2 l2 where sp: "serverPrompt deps dmn p config insa loga = (ok2, c2, i2, l2)"
      by (cases "serverPrompt deps dmn p config insa loga") auto
    from pp pl ne sp have "config' = c2"
      by (cases ok2) (simp_all add: proxyPrompt_def Let_def)
    with serverPrompt_Proxies [OF sp] show "Proxies config' = [p]" by simp
  qed
  from 1 2 3 4 5 6 7 8 show ?thesis by (intro conjI)
qed

text \<open>
  Claim C6 at the empty answer without Tor, at the empty answer with Tor, and at two
  answers that are refused before one is accepted.
\<close>

theorem proxy_prompt_empty_answer_witness:
  "proxyPrompt exampleWizardDeps ''example.com'' emptyConfig [([], None), (''unread'', None)] []
     = (True, emptyConfig, [(''unread'', None)],
        [SetPrompt ''Proxy (i.e socks5://127.0.0.1:9050, enter for none): '', SetPrompt ''> ''])
   \<and> proxyLoop exampleWizardDeps True [([], None), (''unread'', None)] []
     = (Some ''socks5://127.0.0.1:9050'', [(''unread'', None)], [])
   \<and> proxyLoop exampleWizardDeps False
        [(''no proxy'', None), (''http://10.0.0.2:8080'', None), (''socks5://10.0.0.1:1080'', None)] []
     = (Some ''socks5://10.0.0.1:1080'', [],
        [Alert ''Failed to parse no proxy as a URL: invalid character in host name'',
         Alert ''Failed to parse http://10.0.0.2:8080 as a proxy: unknown scheme''])"
proof -
  note w = proxy_prompt_empty_answer [where deps = exampleWizardDeps]
  have ok: "proxyLoop exampleWizardDeps useTor [(''socks5://127.0.0.1:9050'', None), (''unread'', None)] []
     = (Some ''socks5://127.0.0.1:9050'', [(''unread'', None)], [])" for useTor
    by (simp add: exampleWizardDeps_def)
  have a: "proxyPrompt exampleWizardDeps ''example.com'' emptyConfig [([], None), (''unread'', None)] []
     = (True, emptyConfig, [(''unread'', None)],
        [SetPrompt ''Proxy (i.e socks5://127.0.0.1:9050, enter for none): '', SetPrompt ''> ''])"
    using w [where config = emptyConfig and dmn = "''example.com''" and ins = "[(''unread'', None)]"
        and log = "[]", THEN conjunct1]
    by (simp add: emptyConfig_def)
  have b: "proxyLoop exampleWizardDeps True [([], None), (''unread'', None)] []
     = (Some ''socks5://127.0.0.1:9050'', [(''unread'', None)], [])"
    using w [where ins = "[(''unread'', None)]" and log = "[]", THEN conjunct2, THEN conjunct1] ok
    by simp
  have c: "proxyLoop exampleWizardDeps False
        [(''no proxy'', None), (''http://10.0.0.2:8080'', None), (''socks5://10.0.0.1:1080'', None)] []
     = (Some ''socks5://10.0.0.1:1080'', [],
        [Alert ''Failed to parse no proxy as a URL: invalid character in host name'',
         Alert ''Failed to parse http://10.0.0.2:8080 as a proxy: unknown scheme''])"
    using w [where s = "''no proxy''" and useTor = False and log = "[]"
        and ins = "[(''http://10.0.0.2:8080'', None), (''socks5://10.0.0.1:1080'', None)]",
        THEN conjunct2, THEN conjunct2, THEN conjunct2, THEN conjunct2, THEN conjunct1]
    by (simp add: exampleWizardDeps_def)
  from a b c show ?thesis by simp
qed

text \<open>
  Claim C7. With a proxy chosen and the empty line for the server, the wizard looks the
  domain up. When the lookup fails it returns false at once: the message of the failure
  is the last thing it shows and the answers still waiting stay unread. When the lookup
  succeeds the server and the port are the ones found. The failure goes through the
  whole wizard: the part that asks for the proxy returns false, and so does
  \<^verbatim>\<open>enroll\<close>.
\<close>

theorem server_lookup_failure_aborts:
  "(\<forall>e. Resolve deps dmn = Inl e \<longrightarrow>
      serverPrompt deps dmn proxyStr config (([], None) # ins) log =
        (False, config \<lparr> Proxies := [proxyStr], Server := [] \<rparr>, ins,
         log @ [Info ''Since you selected a proxy, we need to know the server and port to connect to as a SRV lookup would leak information every time.'',
                SetPrompt ''Server (i.e. xmpp.example.com, enter to lookup using unproxied DNS): '',
                Info ''Performing SRV lookup'',
                SRVLookup dmn,
                Alert (''SRV lookup failed: '' @ e)]))
   \<and> (\<forall>host port. Resolve deps dmn = Inr (host, port) \<longrightarrow>
      serverPrompt deps dmn proxyStr config (([], None) # ins) log =
        (True, config \<lparr> Proxies := [proxyStr], Server := host, Port := uint port \<rparr>, ins,
         log @ [Info ''Since you selected a proxy, we need to know the server and port to connect to as a SRV lookup would leak information every time.'',
                SetPrompt ''Server (i.e. xmpp.example.com, enter to lookup using unproxied DNS): '',
                Info ''Performing SRV lookup'',
                SRVLookup dmn,
                Info (''Resolved '' @ host @ '':'' @ Itoa (uint port))]))
   \<and> (\<forall>e loga.
        proxyLoop deps (UseTor config) answers
          (log @ [SetPrompt (''Proxy (i.e socks5://127.0.0.1:9050''
                             @ (if UseTor config then '', which is the default'' else '', enter for none'')
                             @ ''): '')]) = (Some proxyStr, ([], None) # ins, loga)
        \<and> proxyStr \<noteq> [] \<and> Resolve deps dmn = Inl e \<longrightarrow>
        proxyPrompt deps dmn config answers log =
          (False, config \<lparr> Proxies := [proxyStr], Server := [] \<rparr>, ins,
           loga @ [Info ''Since you selected a proxy, we need to know the server and port to connect to as a SRV lookup would leak information every time.'',
                   SetPrompt ''Server (i.e. xmpp.example.com, enter to lookup using unproxied DNS): '',
                   Info ''Performing SRV lookup'',
                   SRVLookup dmn,
                   Alert (''SRV lookup failed: '' @ e)]))
   \<and> (\<forall>ca insa loga cb insb logb cc insc logc priv insd logd c' ins' log'.
        accountPrompt cfg input [Warn ''Enrolling new config file''] = (Some dmn, ca, insa, loga)
        \<and> debugPrompt deps ca insa loga = (cb, insb, logb)
        \<and> torPrompt deps cb insb logb = (cc, insc, logc)
        \<and> keyLoop deps (zeroKey deps) insc
             (logc @ [SetPrompt ''File to import libotr private key from (enter to generate): ''])
            = (Some priv, insd, logd)
        \<and> (knownTorDomain dmn = None \<or> UseTor cc = False)
        \<and> proxyPrompt deps dmn
             (cc \<lparr> PrivateKey := Serialize deps priv, OTRAutoAppendTag := True,
                   OTRAutoStartSession := True, OTRAutoTearDown := False \<rparr>) insd logd
            = (False, c', ins', log')
        \<longrightarrow> enroll deps cfg input = (False, c', ins', log'))"
proof -
  have 1: "\<forall>e. Resolve deps dmn = Inl e \<longrightarrow>
      serverPrompt deps dmn proxyStr config (([], None) # ins) log =
        (False, config \<lparr> Proxies := [proxyStr], Server := [] \<rparr>, ins,
         log @ [Info ''Since you selected a proxy, we need to know the server and port to connect to as a SRV lookup would leak information every time.'',
                SetPrompt ''Server (i.e. xmpp.example.com, enter to lookup using unproxied DNS): '',
                Info ''Performing SRV lookup'',
                SRVLookup dmn,
                Alert (''SRV lookup failed: '' @ e)])"
    by (simp add: serverPrompt_def Let_def ReadLine_def)
  have 2: "\<forall>host port. Resolve deps dmn = Inr (host, port) \<longrightarrow>
      serverPrompt deps dmn proxyStr config (([], None) # ins) log =
        (True, config \<lparr> Proxies := [proxyStr], Server := host, Port := uint port \<rparr>, ins,
         log @ [Info ''Since you selected a proxy, we need to know the server and port to connect to as a SRV lookup would leak information every time.'',
                SetPrompt ''Server (i.e. xmpp.example.com, enter to lookup using unproxied DNS): '',
                Info ''Performing SRV lookup'',
                SRVLookup dmn,
                Info (''Resolved '' @ host @ '':'' @ Itoa (uint port))])"
    by (simp add: serverPrompt_def Let_def ReadLine_def)
  have 3: "\<forall>e loga.
        proxyLoop deps (UseTor config) answers
          (log @ [SetPrompt (''Proxy (i.e socks5://127.0.0.1:9050''
                             @ (if UseTor config then '', which is the default'' else '', enter for none'')
                             @ ''): '')]) = (Some proxyStr, ([], None) # ins, loga)
        \<and> proxyStr \<noteq> [] \<and> Resolve deps dmn = Inl e \<longrightarrow>
        proxyPrompt deps dmn config answers log =
          (False, config \<lparr> Proxies := [proxyStr], Server := [] \<rparr>, ins,
           loga @ [Info ''Since you selected a proxy, we need to know the server and port to connect to as a SRV lookup would leak information every time.'',
                   SetPrompt ''Server (i.e. xmpp.example.com, enter to lookup using unproxied DNS): '',
                   Info ''Performing SRV lookup'',
                   SRVLookup dmn,
                   Alert (''SRV lookup failed: '' @ e)])"
    by (simp add: proxyPrompt_def serverPrompt_def Let_def ReadLine_def)
  have 4: "\<forall>ca insa loga cb insb logb cc insc logc priv insd logd c' ins' log'.
        accountPrompt cfg input [Warn ''Enrolling new config file''] = (Some dmn, ca, insa, loga)
        \<and> debugPrompt deps ca insa loga = (cb, insb, logb)
        \<and> torPrompt deps cb insb logb = (cc, insc, logc)
        \<and> keyLoop deps (zeroKey deps) insc
             (logc @ [SetPrompt ''File to import libotr private key from (enter to generate): ''])
            = (Some priv, insd, logd)
        \<and> (knownTorDomain dmn = None \<or> UseTor cc = False)
        \<and> proxyPrompt deps dmn
             (cc \<lparr> PrivateKey := Serialize deps priv, OTRAutoAppendTag := True,
                   OTRAutoStartSession := True, OTRAutoTearDown := False \<rparr>) insd logd
            = (False, c', ins', log')
        \<longrightarrow> enroll deps cfg input = (False, c', ins', log')"
    by (auto simp add: enroll_def afterKey_def Let_def split: option.splits)
  from 1 2 3 4 show ?thesis by (intro conjI)
qed

text \<open>
  Claim C7 at a domain that does not resolve, with an answer waiting that stays unread,
  in the step and in the whole wizard; and the run of the specification in which the
  lookup succeeds.
\<close>

theorem server_lookup_failure_aborts_witness:
  "Resolve exampleWizardDeps ''nowhere.org'' = Inl ''no such host''
   \<and> serverPrompt exampleWizardDeps ''nowhere.org'' ''socks5://10.0.0.1:1080'' emptyConfig
        [([], None), (''xmpp.nowhere.org'', None)] []
      = (False, emptyConfig \<lparr> Proxies := [''socks5://10.0.0.1:1080''] \<rparr>,
         [(''xmpp.nowhere.org'', None)],
         [Info ''Since you selected a proxy, we need to know the server and port to connect to as a SRV lookup would leak information every time.'',
          SetPrompt ''Server (i.e. xmpp.example.com, enter to lookup using unproxied DNS): '',
          Info ''Performing SRV lookup'',
          SRVLookup ''nowhere.org'',
          Alert ''SRV lookup failed: no such host''])
   \<and> fst (enroll exampleWizardDeps emptyConfig
        [(''bob@nowhere.org'', None), (''n'', None), (''n'', None), ([], None),
         (''socks5://10.0.0.1:1080'', None), ([], None), (''xmpp.nowhere.org'', None)]) = False
   \<and> fst (snd (snd (enroll exampleWizardDeps emptyConfig
        [(''bob@nowhere.org'', None), (''n'', None), (''n'', None), ([], None),
         (''socks5://10.0.0.1:1080'', None), ([], None), (''xmpp.nowhere.org'', None)])))
      = [(''xmpp.nowhere.org'', None)]
   \<and> enroll exampleWizardDeps emptyConfig
        [(''bob@example.com'', None), (''n'', None), (''n'', None), ([], None),
         (''socks5://10.0.0.1:1080'', None), ([], None)]
      = (True,
         emptyConfig \<lparr> Account := ''bob@example.com'', PrivateKey := [1, 2, 3],
                       OTRAutoAppendTag := True, OTRAutoStartSession := True,
                       Server := ''xmpp.example.com'', Port := 5269,
                       Proxies := [''socks5://10.0.0.1:1080''] \<rparr>,
         [],
         [Warn ''Enrolling new config file'',
          SetPrompt ''Account (i.e. user@example.com, enter to quit): '',
          SetPrompt ''Enable debug logging to /tmp/xmpp-client-debug.log? '',
          Info ''Not enabling debug logging...'',
          SetPrompt ''Use Tor?: '',
          Info ''Not using Tor...'',
          SetPrompt ''File to import libotr private key from (enter to generate): '',
          Info ''Generating private key...'',
          SetPrompt ''Proxy (i.e socks5://127.0.0.1:9050, enter for none): '',
          Info ''Since you selected a proxy, we need to know the server and port to connect to as a SRV lookup would leak information every time.'',
          SetPrompt ''Server (i.e. xmpp.example.com, enter to lookup using unproxied DNS): '',
          Info ''Performing SRV lookup'',
          SRVLookup ''example.com'',
          Info ''Resolved xmpp.example.com:5269'',
          SetPrompt ''> ''])"
proof -
  have r: "Resolve exampleWizardDeps ''nowhere.org'' = Inl ''no such host''"
    by (simp add: exampleWizardDeps_def)
  have a: "serverPrompt exampleWizardDeps ''nowhere.org'' ''socks5://10.0.0.1:1080'' emptyConfig
        [([], None), (''xmpp.nowhere.org'', None)] []
      = (False, emptyConfig \<lparr> Proxies := [''socks5://10.0.0.1:1080''] \<rparr>,
         [(''xmpp.nowhere.org'', None)],
         [Info ''Since you selected a proxy, we need to know the server and port to connect to as a SRV lookup would leak information every time.'',
          SetPrompt ''Server (i.e. xmpp.example.com, enter to lookup using unproxied DNS): '',
          Info ''Performing SRV lookup'',
          SRVLookup ''nowhere.org'',
          Alert ''SRV lookup failed: no such host''])"
    using server_lookup_failure_aborts [where deps = exampleWizardDeps and dmn = "''nowhere.org''"
        and proxyStr = "''socks5://10.0.0.1:1080''" and config = emptyConfig
        and ins = "[(''xmpp.nowhere.org'', None)]" and log = "[]", THEN conjunct1] r
    by (simp add: emptyConfig_def)
  have b: "enroll exampleWizardDeps emptyConfig
        [(''bob@nowhere.org'', None), (''n'', None), (''n'', None), ([], None),
         (''socks5://10.0.0.1:1080'', None), ([], None), (''xmpp.nowhere.org'', None)]
       = (False,
          emptyConfig \<lparr> Account := ''bob@nowhere.org'', PrivateKey := [1, 2, 3],
                       OTRAutoAppendTag := True, OTRAutoStartSession := True,
                       Proxies := [''socks5://10.0.0.1:1080''] \<rparr>,
          [(''xmpp.nowhere.org'', None)],
          [Warn ''Enrolling new config file'',
          SetPrompt ''Account (i.e. user@example.com, enter to quit): '',
          SetPrompt ''Enable debug logging to /tmp/xmpp-client-debug.log? '',
          Info ''Not enabling debug logging...'',
          SetPrompt ''Use Tor?: '',
          Info ''Not using Tor...'',
          SetPrompt ''File to import libotr private key from (enter to generate): '',
          Info ''Generating private key...'',
          SetPrompt ''Proxy (i.e socks5://127.0.0.1:9050, enter for none): '',
          Info ''Since you selected a proxy, we need to know the server and port to connect to as a SRV lookup would leak information every time.'',
          SetPrompt ''Server (i.e. xmpp.example.com, enter to lookup using unproxied DNS): '',
          Info ''Performing SRV lookup'',
          SRVLookup ''nowhere.org'',
          Alert ''SRV lookup failed: no such host''])"
    by (simp add: enroll_def debugPrompt_def torPrompt_def ReadLine_def afterKey_def
        proxyPrompt_def serverPrompt_def knownTorDomain_def SplitN2_def Let_def emptyConfig_def
        exampleWizardDeps_def)
  have c: "enroll exampleWizardDeps emptyConfig
        [(''bob@example.com'', None), (''n'', None), (''n'', None), ([], None),
         (''socks5://10.0.0.1:1080'', None), ([], None)]
      = (True,
         emptyConfig \<lparr> Account := ''bob@example.com'', PrivateKey := [1, 2, 3],
                       OTRAutoAppendTag := True, OTRAutoStartSession := True,
                       Server := ''xmpp.example.com'', Port := 5269,
                       Proxies := [''socks5://10.0.0.1:1080''] \<rparr>,
         [],
         [Warn ''Enrolling new config file'',
          SetPrompt ''Account (i.e. user@example.com, enter to quit): '',
          SetPrompt ''Enable debug logging to /tmp/xmpp-client-debug.log? '',
          Info ''Not enabling debug logging...'',
          SetPrompt ''Use Tor?: '',
          Info ''Not using Tor...'',
          SetPrompt ''File to import libotr private key from (enter to generate): '',
          Info ''Generating private key...'',
          SetPrompt ''Proxy (i.e socks5://127.0.0.1:9050, enter for none): '',
          Info ''Since you selected a proxy, we need to know the server and port to connect to as a SRV lookup would leak information every time.'',
          SetPrompt ''Server (i.e. xmpp.example.com, enter to lookup using unproxied DNS): '',
          Info ''Performing SRV lookup'',
          SRVLookup ''example.com'',
          Info ''Resolved xmpp.example.com:5269'',
          SetPrompt ''> ''])"
    by (simp add: enroll_def debugPrompt_def torPrompt_def ReadLine_def afterKey_def
        proxyPrompt_def serverPrompt_def knownTorDomain_def SplitN2_def Let_def emptyConfig_def
        exampleWizardDeps_def Itoa_def digitsOf.simps)
  from r a b c show ?thesis by simp
qed

end
